theory Spec2Isabelle
  imports Main "HOL-Library.Word"
begin

section \<open>JavaScript strings\<close>

text \<open>
  A JavaScript string is a sequence of UTF-16 code units; \<open>s.length\<close> counts code units.
  String literals of the source are written \<open>js ''...''\<close>.
\<close>

type_synonym jschar = "16 word"
type_synonym jsstring = "jschar list"

definition js :: "string \<Rightarrow> jsstring" where
  "js s = map (\<lambda>c. of_nat (of_char c)) s"

text \<open>The character classes used by the regular expressions of the source.\<close>

definition isDigit :: "jschar \<Rightarrow> bool" where
  "isDigit c = (0x30 \<le> c \<and> c \<le> 0x39)"

definition isNonZeroDigit :: "jschar \<Rightarrow> bool" where
  "isNonZeroDigit c = (0x31 \<le> c \<and> c \<le> 0x39)"

definition isUpper :: "jschar \<Rightarrow> bool" where
  "isUpper c = (0x41 \<le> c \<and> c \<le> 0x5A)"

definition isLower :: "jschar \<Rightarrow> bool" where
  "isLower c = (0x61 \<le> c \<and> c \<le> 0x7A)"

definition isLetter :: "jschar \<Rightarrow> bool" where
  "isLetter c = (isLower c \<or> isUpper c)"

text \<open>
  \<open>\s\<close> of a JavaScript regular expression, which is also the set that \<open>trim()\<close> strips:
  the WhiteSpace and LineTerminator code points of ECMAScript (tab, line feed, vertical tab,
  form feed, carriage return, space, no-break space, U+1680, U+2000 to U+200A, U+2028,
  U+2029, U+202F, U+205F, U+3000, U+FEFF).
\<close>

definition isSpace :: "jschar \<Rightarrow> bool" where
  "isSpace c = ((0x09 \<le> c \<and> c \<le> 0x0D) \<or> c = 0x20 \<or> c = 0xA0 \<or> c = 0x1680
     \<or> (0x2000 \<le> c \<and> c \<le> 0x200A) \<or> c = 0x2028 \<or> c = 0x2029 \<or> c = 0x202F
     \<or> c = 0x205F \<or> c = 0x3000 \<or> c = 0xFEFF)"

definition trim :: "jsstring \<Rightarrow> jsstring" where
  "trim s = rev (dropWhile isSpace (rev (dropWhile isSpace s)))"

section \<open>Regular expressions\<close>

text \<open>
  The regular expressions of the source are all anchored at both ends (\<open>^...$\<close>, no
  \<open>m\<close> flag), so \<open>re.test(s)\<close> asks whether the whole of \<open>s\<close> matches. They are embedded as
  values of \<open>rx\<close> and run by a matcher that takes derivatives, one code unit at a time.
\<close>

datatype rx =
    Zero
  | One
  | Cls "jschar \<Rightarrow> bool"
  | Seq rx rx
  | Alt rx rx
  | Star rx

fun nullable :: "rx \<Rightarrow> bool" where
  "nullable Zero = False"
| "nullable One = True"
| "nullable (Cls p) = False"
| "nullable (Seq a b) = (nullable a \<and> nullable b)"
| "nullable (Alt a b) = (nullable a \<or> nullable b)"
| "nullable (Star a) = True"

fun deriv :: "jschar \<Rightarrow> rx \<Rightarrow> rx" where
  "deriv c Zero = Zero"
| "deriv c One = Zero"
| "deriv c (Cls p) = (if p c then One else Zero)"
| "deriv c (Seq a b) =
     (if nullable a then Alt (Seq (deriv c a) b) (deriv c b) else Seq (deriv c a) b)"
| "deriv c (Alt a b) = Alt (deriv c a) (deriv c b)"
| "deriv c (Star a) = Seq (deriv c a) (Star a)"

definition matches :: "rx \<Rightarrow> jsstring \<Rightarrow> bool" where
  "matches r s = nullable (fold deriv s r)"

text \<open>Derived forms: a literal code unit, \<open>r+\<close>, \<open>r?\<close> and the bounded repetition \<open>r{m,n}\<close>.\<close>

definition Chr :: "jschar \<Rightarrow> rx" where
  "Chr c = Cls (\<lambda>x. x = c)"

definition Plus :: "rx \<Rightarrow> rx" where
  "Plus r = Seq r (Star r)"

definition Opt :: "rx \<Rightarrow> rx" where
  "Opt r = Alt One r"

fun Rep :: "rx \<Rightarrow> nat \<Rightarrow> nat \<Rightarrow> rx" where
  "Rep r 0 0 = One"
| "Rep r 0 (Suc n) = Opt (Seq r (Rep r 0 n))"
| "Rep r (Suc m) 0 = Zero"
| "Rep r (Suc m) (Suc n) = Seq r (Rep r m n)"

section \<open>Phone formatter: canonical form\<close>

text \<open>
  \<^verbatim>\<open>const e164Regex = /^\+[1-9]\d{1,14}$/; return e164Regex.test(phone);\<close>
\<close>

definition e164Regex :: rx where
  "e164Regex = Seq (Chr 0x2B) (Seq (Cls isNonZeroDigit) (Rep (Cls isDigit) 1 14))"

definition isE164Format :: "jsstring \<Rightarrow> bool" where
  "isE164Format phone = matches e164Regex phone"

text \<open>
  The canonical form in the words of the specification: a plus sign, a non-zero leading digit,
  then 1 to 14 further digits and nothing else.
\<close>

definition isCanonicalForm :: "jsstring \<Rightarrow> bool" where
  "isCanonicalForm s =
     (case s of
        [] \<Rightarrow> False
      | p # rest \<Rightarrow>
          (case rest of
             [] \<Rightarrow> False
           | d # ds \<Rightarrow> p = 0x2B \<and> isNonZeroDigit d
                        \<and> 1 \<le> length ds \<and> length ds \<le> 14 \<and> list_all isDigit ds))"

section \<open>Data model\<close>

type_synonym ident = jsstring

datatype UserRole = SUPER_ADMIN | MANAGER | VIEWER

record OrganizationSettings =
  settingsOrganizationId :: ident
  settingsCountry :: jsstring

record Organization =
  orgId :: ident
  orgName :: jsstring
  orgSlug :: jsstring

record Customer =
  customerId :: ident
  organizationId :: ident
  firstName :: jsstring
  lastName :: jsstring
  phone :: jsstring
  birthDate :: "int option"
  email :: "jsstring option"
  addressLine1 :: "jsstring option"
  addressLine2 :: "jsstring option"
  city :: "jsstring option"
  state :: "jsstring option"
  postalCode :: "jsstring option"
  country :: "jsstring option"
  consentGiven :: bool
  createdBy :: "ident option"
  updatedBy :: "ident option"

record User =
  userId :: ident
  clerkUserId :: ident
  userEmail :: jsstring
  userFirstName :: jsstring
  userLastName :: jsstring
  role :: UserRole
  userOrganizationId :: ident

section \<open>Persistence layer\<close>

text \<open>
  The ORM client is an external collaborator. It is modelled as explicit state: the tables,
  a log of the calls made, and a list \<open>faults\<close> that says for each coming call whether it
  throws before touching the tables (and what). A thrown value either carries a \<open>code\<close>
  property or does not. The unique constraints are those of the schema:
  \<open>@@unique([organizationId, phone])\<close> on customers, \<open>slug\<close> on organizations,
  \<open>clerkUserId\<close> and \<open>@@unique([organizationId, email])\<close> on users, \<open>organizationId\<close> on
  settings; a violated unique constraint throws the code \<open>P2002\<close>, a row that refers to a
  missing organization the code \<open>P2003\<close>.
\<close>

datatype exn = ErrorWithCode jsstring | ErrorOther

datatype query =
    CustomerFindFirst ident jsstring "ident option"
  | CustomerCreate ident jsstring
  | OrganizationFindUnique jsstring
  | OrganizationCreate jsstring
  | UserFindUnique ident
  | UserCount ident
  | UserCreate ident ident
  | SettingsFindUnique ident
  | SettingsCreate ident

record db =
  organizations :: "Organization list"
  settings :: "OrganizationSettings list"
  customers :: "Customer list"
  users :: "User list"
  nextId :: nat
  faults :: "exn option list"
  queries :: "query list"

definition freshId :: "nat \<Rightarrow> ident" where
  "freshId n = 0x63 # replicate n 0x30"

definition db_call :: "query \<Rightarrow> db \<Rightarrow> exn option \<times> db" where
  "db_call q d =
     (case faults d of
        [] \<Rightarrow> (None, d\<lparr>queries := queries d @ [q]\<rparr>)
      | f # fs \<Rightarrow> (f, d\<lparr>faults := fs, queries := queries d @ [q]\<rparr>))"

text \<open>A string is truthy when it is not empty; an absent optional argument is not.\<close>

fun truthy :: "jsstring option \<Rightarrow> bool" where
  "truthy None = False"
| "truthy (Some s) = (s \<noteq> [])"

text \<open>
  \<open>db.customer.findFirst({ where: { organizationId, phone, id: { not: x } } })\<close>; the \<open>id\<close>
  condition is present only when \<open>notId\<close> is given.
\<close>

definition customer_where :: "ident \<Rightarrow> jsstring \<Rightarrow> ident option \<Rightarrow> Customer \<Rightarrow> bool" where
  "customer_where org ph notId c =
     (organizationId c = org \<and> phone c = ph
      \<and> (case notId of None \<Rightarrow> True | Some x \<Rightarrow> customerId c \<noteq> x))"

definition customer_findFirst ::
  "ident \<Rightarrow> jsstring \<Rightarrow> ident option \<Rightarrow> db \<Rightarrow> (exn + Customer option) \<times> db" where
  "customer_findFirst org ph notId d =
     (case db_call (CustomerFindFirst org ph notId) d of
        (Some e, d') \<Rightarrow> (Inl e, d')
      | (None, d') \<Rightarrow> (Inr (find (customer_where org ph notId) (customers d')), d'))"

definition customer_create :: "Customer \<Rightarrow> db \<Rightarrow> (exn + Customer) \<times> db" where
  "customer_create c d =
     (case db_call (CustomerCreate (organizationId c) (phone c)) d of
        (Some e, d') \<Rightarrow> (Inl e, d')
      | (None, d') \<Rightarrow>
          if list_ex (customer_where (organizationId c) (phone c) None) (customers d')
          then (Inl (ErrorWithCode (js ''P2002'')), d')
          else if \<not> list_ex (\<lambda>g. orgId g = organizationId c) (organizations d')
          then (Inl (ErrorWithCode (js ''P2003'')), d')
          else let row = c\<lparr>customerId := freshId (nextId d')\<rparr>
               in (Inr row, d'\<lparr>customers := customers d' @ [row], nextId := Suc (nextId d')\<rparr>))"

text \<open>\<open>db.organization.findUnique({ where: { slug }, include: { settings: true } })\<close>\<close>

definition settingsOf :: "ident \<Rightarrow> db \<Rightarrow> OrganizationSettings option" where
  "settingsOf org d = find (\<lambda>s. settingsOrganizationId s = org) (settings d)"

definition organization_findUnique ::
  "jsstring \<Rightarrow> db \<Rightarrow> (exn + (Organization \<times> OrganizationSettings option) option) \<times> db" where
  "organization_findUnique slug d =
     (case db_call (OrganizationFindUnique slug) d of
        (Some e, d') \<Rightarrow> (Inl e, d')
      | (None, d') \<Rightarrow>
          (Inr (case find (\<lambda>g. orgSlug g = slug) (organizations d') of
                  None \<Rightarrow> None
                | Some g \<Rightarrow> Some (g, settingsOf (orgId g) d')), d'))"

text \<open>
  \<open>db.organization.create({ data: { name, slug, settings: { create: { country } } } })\<close>:
  the organization and its settings row are written together.
\<close>

definition organization_create ::
  "jsstring \<Rightarrow> jsstring \<Rightarrow> jsstring \<Rightarrow> db
     \<Rightarrow> (exn + (Organization \<times> OrganizationSettings option)) \<times> db" where
  "organization_create name slug ctry d =
     (case db_call (OrganizationCreate slug) d of
        (Some e, d') \<Rightarrow> (Inl e, d')
      | (None, d') \<Rightarrow>
          if list_ex (\<lambda>g. orgSlug g = slug) (organizations d')
          then (Inl (ErrorWithCode (js ''P2002'')), d')
          else let g = \<lparr>orgId = freshId (nextId d'), orgName = name, orgSlug = slug\<rparr>;
                   s = \<lparr>settingsOrganizationId = orgId g, settingsCountry = ctry\<rparr>
               in (Inr (g, Some s),
                   d'\<lparr>organizations := organizations d' @ [g], settings := settings d' @ [s],
                      nextId := Suc (nextId d')\<rparr>))"

definition settings_findUnique ::
  "ident \<Rightarrow> db \<Rightarrow> (exn + OrganizationSettings option) \<times> db" where
  "settings_findUnique org d =
     (case db_call (SettingsFindUnique org) d of
        (Some e, d') \<Rightarrow> (Inl e, d')
      | (None, d') \<Rightarrow> (Inr (settingsOf org d'), d'))"

definition settings_create ::
  "OrganizationSettings \<Rightarrow> db \<Rightarrow> (exn + OrganizationSettings) \<times> db" where
  "settings_create s d =
     (case db_call (SettingsCreate (settingsOrganizationId s)) d of
        (Some e, d') \<Rightarrow> (Inl e, d')
      | (None, d') \<Rightarrow>
          if settingsOf (settingsOrganizationId s) d' \<noteq> None
          then (Inl (ErrorWithCode (js ''P2002'')), d')
          else (Inr s, d'\<lparr>settings := settings d' @ [s]\<rparr>))"

text \<open>\<open>db.user.findUnique({ where: { clerkUserId } })\<close>\<close>

definition user_findUnique :: "ident \<Rightarrow> db \<Rightarrow> (exn + User option) \<times> db" where
  "user_findUnique clerk d =
     (case db_call (UserFindUnique clerk) d of
        (Some e, d') \<Rightarrow> (Inl e, d')
      | (None, d') \<Rightarrow> (Inr (find (\<lambda>u. clerkUserId u = clerk) (users d')), d'))"



section \<open>Phone formatter\<close>

text \<open>
  \<open>libphonenumber-js\<close> is an external library: its three entry points used by the formatter
  are parameters. \<open>None\<close> stands for a call that throws; a successful parse gives the
  E.164 text of the number and its \<open>country\<close> property, which may be undefined.
\<close>

record phonelib =
  getCountries :: "jsstring list"
  isValidPhoneNumber :: "jsstring \<Rightarrow> jsstring \<Rightarrow> bool option"
  parsePhoneNumber :: "jsstring \<Rightarrow> jsstring \<Rightarrow> (jsstring \<times> jsstring option) option"

record PhoneValidationResult =
  isValid :: bool
  formatted :: "jsstring option"
  resultCountry :: "jsstring option"
  error :: "jsstring option"

record PhoneValidationWithAvailability = PhoneValidationResult +
  available :: "bool option"

record PhoneAvailabilityResult =
  isAvailable :: bool
  message :: "jsstring option"

definition invalidPhone :: "string \<Rightarrow> PhoneValidationResult" where
  "invalidPhone msg =
     \<lparr>isValid = False, formatted = None, resultCountry = None, error = Some (js msg)\<rparr>"

text \<open>\<open>phoneInput.replace(/[\s\-\(\)\.]/g, "")\<close>\<close>

definition isSeparator :: "jschar \<Rightarrow> bool" where
  "isSeparator c = (isSpace c \<or> c = 0x2D \<or> c = 0x28 \<or> c = 0x29 \<or> c = 0x2E)"

definition cleanPhone :: "jsstring \<Rightarrow> jsstring" where
  "cleanPhone phoneInput = filter (\<lambda>c. \<not> isSeparator c) phoneInput"

definition validateAndFormatPhone ::
  "phonelib \<Rightarrow> jsstring \<Rightarrow> jsstring \<Rightarrow> PhoneValidationResult" where
  "validateAndFormatPhone lib phoneInput countryCode =
     (let cleaned = cleanPhone phoneInput in
      if cleaned = [] then invalidPhone ''Phone number is required''
      else if countryCode \<notin> set (getCountries lib) then invalidPhone ''Invalid country code''
      else case isValidPhoneNumber lib cleaned countryCode of
          None \<Rightarrow> invalidPhone ''Failed to parse phone number''
        | Some False \<Rightarrow> invalidPhone ''Invalid phone number for the selected country''
        | Some True \<Rightarrow>
            (case parsePhoneNumber lib cleaned countryCode of
               None \<Rightarrow> invalidPhone ''Failed to parse phone number''
             | Some (e164, ctry) \<Rightarrow>
                 \<lparr>isValid = True, formatted = Some e164,
                  resultCountry = Some (if truthy ctry then the ctry else countryCode),
                  error = None\<rparr>))"

section \<open>Phone availability checker\<close>

text \<open>
  The body of \<open>checkPhoneAvailability\<close> inside its \<open>try\<close>; \<open>Inl\<close> is a thrown value.
\<close>

definition checkPhoneAvailability_try ::
  "jsstring \<Rightarrow> ident \<Rightarrow> ident option \<Rightarrow> db \<Rightarrow> (exn + PhoneAvailabilityResult) \<times> db" where
  "checkPhoneAvailability_try ph org excludeCustomerId d =
     (if \<not> isE164Format ph
      then (Inr \<lparr>isAvailable = False,
                 message = Some (js ''Phone number must be in E.164 format'')\<rparr>, d)
      else case customer_findFirst org ph
                  (if truthy excludeCustomerId then excludeCustomerId else None) d of
          (Inl e, d') \<Rightarrow> (Inl e, d')
        | (Inr (Some existing), d') \<Rightarrow>
            (Inr \<lparr>isAvailable = False,
                  message = Some (js ''Phone number already registered to ''
                                  @ firstName existing @ js '' '' @ lastName existing)\<rparr>, d')
        | (Inr None, d') \<Rightarrow>
            (Inr \<lparr>isAvailable = True, message = Some (js ''Phone number is available'')\<rparr>, d'))"

text \<open>The function with its \<open>catch\<close>, which turns every thrown value into a result.\<close>

definition checkPhoneAvailability ::
  "jsstring \<Rightarrow> ident \<Rightarrow> ident option \<Rightarrow> db \<Rightarrow> (exn + PhoneAvailabilityResult) \<times> db" where
  "checkPhoneAvailability ph org excludeCustomerId d =
     (case checkPhoneAvailability_try ph org excludeCustomerId d of
        (Inl e, d') \<Rightarrow>
          (Inr \<lparr>isAvailable = False,
                message = Some (js ''Error checking phone availability'')\<rparr>, d')
      | (Inr r, d') \<Rightarrow> (Inr r, d'))"

text \<open>
  \<open>validatePhoneAndCheckAvailability\<close> has no \<open>try\<close> of its own: a value thrown by the
  checker would pass through it.
\<close>

definition withoutAvailability :: "PhoneValidationResult \<Rightarrow> PhoneValidationWithAvailability" where
  "withoutAvailability v =
     \<lparr>isValid = isValid v, formatted = formatted v, resultCountry = resultCountry v,
      error = error v, available = None\<rparr>"

definition validatePhoneAndCheckAvailability ::
  "phonelib \<Rightarrow> jsstring \<Rightarrow> jsstring \<Rightarrow> ident \<Rightarrow> ident option \<Rightarrow> db
     \<Rightarrow> (exn + PhoneValidationWithAvailability) \<times> db" where
  "validatePhoneAndCheckAvailability lib phoneInput countryCode org excludeCustomerId d =
     (let validation = validateAndFormatPhone lib phoneInput countryCode in
      if \<not> isValid validation \<or> \<not> truthy (formatted validation)
      then (Inr (withoutAvailability validation), d)
      else case checkPhoneAvailability (the (formatted validation)) org excludeCustomerId d of
          (Inl e, d') \<Rightarrow> (Inl e, d')
        | (Inr availability, d') \<Rightarrow>
            (Inr ((withoutAvailability validation)
                    \<lparr>error := (if \<not> isAvailable availability then message availability
                                else None),
                     available := Some (isAvailable availability)\<rparr>), d'))"

section \<open>Concrete values for evaluation\<close>

text \<open>
  A stand-in for the phone library, used only to run the definitions on concrete inputs. As
  the library does, it lists countries by their two-letter codes. For \<open>US\<close> it accepts the
  national numbers of the area codes 201, 213 and 650 whose exchange starts with a digit from
  2 to 9, written as ten digits or as \<open>+1\<close> and ten digits, and formats both to \<open>+1\<close> and
  the ten digits; every other input it answers as not valid.
\<close>

definition usNational :: "jsstring \<Rightarrow> bool" where
  "usNational s =
     (length s = 10 \<and> list_all isDigit s
      \<and> take 3 s \<in> set [js ''201'', js ''213'', js ''650'']
      \<and> s ! 3 \<noteq> 0x30 \<and> s ! 3 \<noteq> 0x31)"

definition exampleLib :: phonelib where
  "exampleLib =
     \<lparr>getCountries = [js ''US'', js ''CA'', js ''GB''],
      isValidPhoneNumber =
        (\<lambda>s cc. Some (cc = js ''US''
                        \<and> (usNational s \<or> (take 2 s = js ''+1'' \<and> usNational (drop 2 s))))),
      parsePhoneNumber =
        (\<lambda>s cc. if cc = js ''US'' \<and> usNational s then Some (js ''+1'' @ s, Some (js ''US''))
                else if cc = js ''US'' \<and> take 2 s = js ''+1'' \<and> usNational (drop 2 s)
                then Some (s, Some (js ''US''))
                else None)\<rparr>"

definition emptyDb :: db where
  "emptyDb = \<lparr>organizations = [], settings = [], customers = [], users = [], nextId = 0,
               faults = [], queries = []\<rparr>"

section \<open>Dates\<close>

text \<open>
  A \<open>Date\<close> holds a time value: milliseconds since the epoch, or NaN (an invalid date), here
  \<open>int option\<close>. The calendar functions are those of the ECMAScript specification, on which
  \<open>getFullYear\<close> and \<open>setFullYear\<close> are defined. The offset of local time, \<open>LocalTZA\<close>, is
  left to the implementation by the specification, and so is the parsing of date strings:
  both are parameters, as is each reading of the clock. \<open>toUpperCase\<close> of the language
  follows the Unicode tables and is a parameter too.
\<close>

record runtime =
  localTZA :: "int \<Rightarrow> bool \<Rightarrow> int"
  dateParse :: "jsstring \<Rightarrow> int option"
  toUpperCase :: "jsstring \<Rightarrow> jsstring"

definition msPerDay :: int where
  "msPerDay = 86400000"

definition Day :: "int \<Rightarrow> int" where
  "Day t = t div msPerDay"

definition TimeWithinDay :: "int \<Rightarrow> int" where
  "TimeWithinDay t = t mod msPerDay"

definition DaysInYear :: "int \<Rightarrow> int" where
  "DaysInYear y =
     (if y mod 4 \<noteq> 0 then 365
      else if y mod 100 \<noteq> 0 then 366
      else if y mod 400 \<noteq> 0 then 365
      else 366)"

definition DayFromYear :: "int \<Rightarrow> int" where
  "DayFromYear y =
     365 * (y - 1970) + (y - 1969) div 4 - (y - 1901) div 100 + (y - 1601) div 400"

definition InLeapYearOf :: "int \<Rightarrow> int" where
  "InLeapYearOf y = (if DaysInYear y = 366 then 1 else 0)"

text \<open>
  \<open>YearFromTime(t)\<close> is the largest \<open>y\<close> with \<open>TimeFromYear(y) \<le> t\<close>: the search starts from a
  year that is not after it and walks up.
\<close>

function yearUp :: "int \<Rightarrow> int \<Rightarrow> int" where
  "yearUp dayNumber y =
     (if DayFromYear (y + 1) \<le> dayNumber then yearUp dayNumber (y + 1) else y)"
  by pat_completeness auto
termination
  by (relation "measure (\<lambda>(dayNumber, y). nat (dayNumber - DayFromYear y))")
    (auto simp add: DayFromYear_def)

declare yearUp.simps [simp del]

definition YearFromDay :: "int \<Rightarrow> int" where
  "YearFromDay dayNumber =
     yearUp dayNumber
       (1970 + (if 0 \<le> dayNumber then dayNumber div 366 else dayNumber div 365))"

definition YearFromTime :: "int \<Rightarrow> int" where
  "YearFromTime t = YearFromDay (Day t)"

definition DayWithinYear :: "int \<Rightarrow> int" where
  "DayWithinYear t = Day t - DayFromYear (YearFromTime t)"

text \<open>The first day of each month, counted within the year; \<open>l\<close> is 1 in a leap year.\<close>

definition monthStart :: "int \<Rightarrow> int \<Rightarrow> int" where
  "monthStart m l =
     (if m = 0 then 0 else if m = 1 then 31 else if m = 2 then 59 + l
      else if m = 3 then 90 + l else if m = 4 then 120 + l else if m = 5 then 151 + l
      else if m = 6 then 181 + l else if m = 7 then 212 + l else if m = 8 then 243 + l
      else if m = 9 then 273 + l else if m = 10 then 304 + l else 334 + l)"

definition monthOfDay :: "int \<Rightarrow> int \<Rightarrow> int" where
  "monthOfDay dwy l =
     (if dwy < 31 then 0 else if dwy < 59 + l then 1 else if dwy < 90 + l then 2
      else if dwy < 120 + l then 3 else if dwy < 151 + l then 4 else if dwy < 181 + l then 5
      else if dwy < 212 + l then 6 else if dwy < 243 + l then 7 else if dwy < 273 + l then 8
      else if dwy < 304 + l then 9 else if dwy < 334 + l then 10 else 11)"

definition MonthFromTime :: "int \<Rightarrow> int" where
  "MonthFromTime t = monthOfDay (DayWithinYear t) (InLeapYearOf (YearFromTime t))"

definition DateFromTime :: "int \<Rightarrow> int" where
  "DateFromTime t =
     DayWithinYear t
       - monthStart (MonthFromTime t) (InLeapYearOf (YearFromTime t)) + 1"

definition MakeDay :: "int \<Rightarrow> int \<Rightarrow> int \<Rightarrow> int" where
  "MakeDay year month dt =
     (let ym = year + month div 12; mn = month mod 12
      in DayFromYear ym + monthStart mn (InLeapYearOf ym) + dt - 1)"

definition MakeDate :: "int \<Rightarrow> int \<Rightarrow> int" where
  "MakeDate dayNumber time = dayNumber * msPerDay + time"

definition TimeClip :: "int \<Rightarrow> int option" where
  "TimeClip v = (if \<bar>v\<bar> > 8640000000000000 then None else Some v)"

definition LocalTime :: "runtime \<Rightarrow> int \<Rightarrow> int" where
  "LocalTime rt t = t + localTZA rt t True"

definition UTC :: "runtime \<Rightarrow> int \<Rightarrow> int" where
  "UTC rt t = t - localTZA rt t False"

definition getFullYear :: "runtime \<Rightarrow> int \<Rightarrow> int" where
  "getFullYear rt t = YearFromTime (LocalTime rt t)"

definition setFullYear :: "runtime \<Rightarrow> int \<Rightarrow> int \<Rightarrow> int option" where
  "setFullYear rt t year =
     (let lt = LocalTime rt t;
          newDate = MakeDate (MakeDay year (MonthFromTime lt) (DateFromTime lt)) (TimeWithinDay lt)
      in TimeClip (UTC rt newDate))"

section \<open>Form validator\<close>

record ValidationError =
  field :: jsstring
  errorMessage :: jsstring

datatype NameField = FirstNameField | LastNameField

definition fieldString :: "NameField \<Rightarrow> jsstring" where
  "fieldString f = (case f of FirstNameField \<Rightarrow> js ''firstName'' | LastNameField \<Rightarrow> js ''lastName'')"

definition fieldLabel :: "NameField \<Rightarrow> jsstring" where
  "fieldLabel f = (if f = FirstNameField then js ''First'' else js ''Last'')"

text \<open>\<^verbatim>\<open>/^[^\s@]+@[^\s@]+\.[^\s@]+$/\<close>\<close>

definition notSpaceOrAt :: "jschar \<Rightarrow> bool" where
  "notSpaceOrAt c = (\<not> (isSpace c \<or> c = 0x40))"

definition emailRegex :: rx where
  "emailRegex =
     Seq (Plus (Cls notSpaceOrAt))
       (Seq (Chr 0x40)
         (Seq (Plus (Cls notSpaceOrAt)) (Seq (Chr 0x2E) (Plus (Cls notSpaceOrAt)))))"

definition validateEmail :: "jsstring \<Rightarrow> ValidationError option" where
  "validateEmail em =
     (if em = [] then None
      else if \<not> matches emailRegex em
      then Some \<lparr>field = js ''email'', errorMessage = js ''Please enter a valid email address''\<rparr>
      else None)"

text \<open>\<^verbatim>\<open>/^[a-zA-Z\s\-']+$/\<close>\<close>

definition isNameChar :: "jschar \<Rightarrow> bool" where
  "isNameChar c = (isLetter c \<or> isSpace c \<or> c = 0x2D \<or> c = 0x27)"

definition nameRegex :: rx where
  "nameRegex = Plus (Cls isNameChar)"

definition validateName :: "jsstring \<Rightarrow> NameField \<Rightarrow> ValidationError option" where
  "validateName name fieldName =
     (if name = [] \<or> length (trim name) = 0
      then Some \<lparr>field = fieldString fieldName,
                 errorMessage = fieldLabel fieldName @ js '' name is required''\<rparr>
      else if length (trim name) < 2
      then Some \<lparr>field = fieldString fieldName,
                 errorMessage = fieldLabel fieldName @ js '' name must be at least 2 characters''\<rparr>
      else if length name > 100
      then Some \<lparr>field = fieldString fieldName,
                 errorMessage =
                   fieldLabel fieldName @ js '' name must be less than 100 characters''\<rparr>
      else if \<not> matches nameRegex name
      then Some \<lparr>field = fieldString fieldName,
                 errorMessage = fieldLabel fieldName
                   @ js '' name can only contain letters, spaces, hyphens, and apostrophes''\<rparr>
      else None)"

text \<open>
  The argument of \<open>validateBirthDate\<close> is a \<open>Date\<close> or a string. \<open>today\<close> and \<open>minNow\<close> are
  the two readings of the clock, in the order the function takes them.
\<close>

datatype DateOrString = DateObject "int option" | DateString jsstring

definition birthDateError :: "string \<Rightarrow> ValidationError option" where
  "birthDateError msg = Some \<lparr>field = js ''birthDate'', errorMessage = js msg\<rparr>"

definition validateBirthDate ::
  "runtime \<Rightarrow> int \<Rightarrow> int \<Rightarrow> DateOrString \<Rightarrow> ValidationError option" where
  "validateBirthDate rt today minNow birthDateArg =
     (if birthDateArg = DateString [] then birthDateError ''Birth date is required''
      else case (case birthDateArg of DateObject v \<Rightarrow> v | DateString s \<Rightarrow> dateParse rt s) of
          None \<Rightarrow> birthDateError ''Please enter a valid date''
        | Some date \<Rightarrow>
            if date \<ge> today then birthDateError ''Birth date must be in the past''
            else case setFullYear rt minNow (getFullYear rt minNow - 150) of
                None \<Rightarrow> None
              | Some minDate \<Rightarrow>
                  if date < minDate then birthDateError ''Please enter a valid birth date''
                  else None)"


text \<open>
  A runtime for concrete evaluation: local time is UTC, the only date string known to the
  parser is \<open>1990-01-15\<close>, and upper case is taken of ASCII letters.
\<close>

definition exampleRuntime :: runtime where
  "exampleRuntime =
     \<lparr>localTZA = (\<lambda>t b. 0),
      dateParse = (\<lambda>s. if s = js ''1990-01-15'' then Some 632361600000 else None),
      toUpperCase = map (\<lambda>c. if isLower c then c - 0x20 else c)\<rparr>"

text \<open>
  Postal codes: \<^verbatim>\<open>/^\d{5}(-\d{4})?$/\<close>, \<^verbatim>\<open>/^[A-Za-z]\d[A-Za-z] ?\d[A-Za-z]\d$/\<close> and
  \<^verbatim>\<open>/^[A-Z]{1,2}\d{1,2}[A-Z]?\s?\d[A-Z]{2}$/i\<close>, where the flag \<open>i\<close> lets \<open>[A-Z]\<close> match
  the letters of either case.
\<close>

definition usZipRegex :: rx where
  "usZipRegex = Seq (Rep (Cls isDigit) 5 5) (Opt (Seq (Chr 0x2D) (Rep (Cls isDigit) 4 4)))"

definition caPostalRegex :: rx where
  "caPostalRegex =
     Seq (Cls isLetter) (Seq (Cls isDigit) (Seq (Cls isLetter) (Seq (Opt (Chr 0x20))
       (Seq (Cls isDigit) (Seq (Cls isLetter) (Cls isDigit))))))"

definition ukPostcodeRegex :: rx where
  "ukPostcodeRegex =
     Seq (Rep (Cls isLetter) 1 2) (Seq (Rep (Cls isDigit) 1 2) (Seq (Opt (Cls isLetter))
       (Seq (Opt (Cls isSpace)) (Seq (Cls isDigit) (Rep (Cls isLetter) 2 2)))))"

definition postalError :: "string \<Rightarrow> ValidationError option" where
  "postalError msg = Some \<lparr>field = js ''postalCode'', errorMessage = js msg\<rparr>"

definition validatePostalCode :: "jsstring \<Rightarrow> jsstring option \<Rightarrow> ValidationError option" where
  "validatePostalCode pc countryCode =
     (if pc = [] then None
      else if length pc < 3 \<or> length pc > 10 then postalError ''Please enter a valid postal code''
      else if countryCode = Some (js ''US'')
      then (if \<not> matches usZipRegex pc
            then postalError ''Please enter a valid US ZIP code (e.g., 12345 or 12345-6789)''
            else None)
      else if countryCode = Some (js ''CA'')
      then (if \<not> matches caPostalRegex pc
            then postalError ''Please enter a valid Canadian postal code (e.g., A1A 1A1)''
            else None)
      else if countryCode = Some (js ''GB'')
      then (if \<not> matches ukPostcodeRegex pc
            then postalError ''Please enter a valid UK postcode''
            else None)
      else None)"

datatype AddressField = AddressLine1Field | AddressLine2Field

definition addressFieldString :: "AddressField \<Rightarrow> jsstring" where
  "addressFieldString f =
     (case f of AddressLine1Field \<Rightarrow> js ''addressLine1'' | AddressLine2Field \<Rightarrow> js ''addressLine2'')"

definition validateAddressLine :: "jsstring \<Rightarrow> AddressField \<Rightarrow> ValidationError option" where
  "validateAddressLine address fieldName =
     (if address = [] then None
      else if length address < 3
      then Some \<lparr>field = addressFieldString fieldName,
                 errorMessage = js ''Address must be at least 3 characters''\<rparr>
      else if length address > 200
      then Some \<lparr>field = addressFieldString fieldName,
                 errorMessage = js ''Address must be less than 200 characters''\<rparr>
      else None)"

text \<open>\<^verbatim>\<open>/^[a-zA-Z\s\-'.]+$/\<close>\<close>

definition cityRegex :: rx where
  "cityRegex = Plus (Cls (\<lambda>c. isNameChar c \<or> c = 0x2E))"

definition validateCity :: "jsstring \<Rightarrow> ValidationError option" where
  "validateCity c =
     (if c = [] then None
      else if length (trim c) < 2
      then Some \<lparr>field = js ''city'', errorMessage = js ''City must be at least 2 characters''\<rparr>
      else if length c > 100
      then Some \<lparr>field = js ''city'', errorMessage = js ''City must be less than 100 characters''\<rparr>
      else if \<not> matches cityRegex c
      then Some \<lparr>field = js ''city'',
                 errorMessage =
                   js ''City can only contain letters, spaces, hyphens, apostrophes, and periods''\<rparr>
      else None)"

definition validateState :: "jsstring \<Rightarrow> ValidationError option" where
  "validateState st =
     (if st = [] then None
      else if length (trim st) < 2
      then Some \<lparr>field = js ''state'', errorMessage = js ''State must be at least 2 characters''\<rparr>
      else if length st > 100
      then Some \<lparr>field = js ''state'', errorMessage = js ''State must be less than 100 characters''\<rparr>
      else None)"

definition validateConsent :: "bool \<Rightarrow> ValidationError option" where
  "validateConsent given =
     (if \<not> given
      then Some \<lparr>field = js ''consentGiven'',
                 errorMessage = js ''You must agree to the terms to continue''\<rparr>
      else None)"

text \<open>
  The body of a registration request. Optional properties are \<open>None\<close> when absent. The
  birth date arrives as a string, since the body is JSON.
\<close>

record CustomerRegistrationData =
  dataFirstName :: jsstring
  dataLastName :: jsstring
  dataPhone :: jsstring
  dataBirthDate :: jsstring
  dataEmail :: "jsstring option"
  dataAddressLine1 :: "jsstring option"
  dataAddressLine2 :: "jsstring option"
  dataCity :: "jsstring option"
  dataState :: "jsstring option"
  dataPostalCode :: "jsstring option"
  dataCountry :: "jsstring option"
  dataConsentGiven :: bool

text \<open>\<open>if (e) errors.push(e)\<close>\<close>

definition push :: "ValidationError option \<Rightarrow> ValidationError list \<Rightarrow> ValidationError list" where
  "push e errors = (case e of None \<Rightarrow> errors | Some x \<Rightarrow> errors @ [x])"

text \<open>\<open>if (data.f) { const e = validate(data.f); if (e) errors.push(e); }\<close>\<close>

definition pushOptional ::
  "jsstring option \<Rightarrow> (jsstring \<Rightarrow> ValidationError option) \<Rightarrow> ValidationError list
     \<Rightarrow> ValidationError list" where
  "pushOptional v validate errors =
     (if truthy v then push (validate (the v)) errors else errors)"

definition validateCustomerRegistration ::
  "runtime \<Rightarrow> int \<Rightarrow> int \<Rightarrow> CustomerRegistrationData \<Rightarrow> ValidationError list" where
  "validateCustomerRegistration rt today minNow data =
     (pushOptional (dataPostalCode data) (\<lambda>v. validatePostalCode v (dataCountry data))
       (pushOptional (dataState data) validateState
         (pushOptional (dataCity data) validateCity
           (pushOptional (dataAddressLine2 data) (\<lambda>v. validateAddressLine v AddressLine2Field)
             (pushOptional (dataAddressLine1 data) (\<lambda>v. validateAddressLine v AddressLine1Field)
               (pushOptional (dataEmail data) validateEmail
                 (push (validateConsent (dataConsentGiven data))
                   (push (validateBirthDate rt today minNow (DateString (dataBirthDate data)))
                     (push (validateName (dataLastName data) LastNameField)
                       (push (validateName (dataFirstName data) FirstNameField) []))))))))))"

section \<open>Authentication and role-based access control\<close>

text \<open>
  \<open>auth()\<close> of the identity provider is external: the \<open>userId\<close> of the session it returns
  is the parameter \<open>session\<close>, \<open>None\<close> when nobody is signed in.
\<close>

definition getCurrentUser :: "ident option \<Rightarrow> db \<Rightarrow> User option \<times> db" where
  "getCurrentUser session d =
     (if \<not> truthy session then (None, d)
      else case user_findUnique (the session) d of
          (Inl e, d') \<Rightarrow> (None, d')
        | (Inr u, d') \<Rightarrow> (u, d'))"

definition getUserByClerkId :: "ident \<Rightarrow> db \<Rightarrow> User option \<times> db" where
  "getUserByClerkId clerk d =
     (case user_findUnique clerk d of
        (Inl e, d') \<Rightarrow> (None, d')
      | (Inr u, d') \<Rightarrow> (u, d'))"

datatype Action =
    canManageUsers
  | canManageSettings
  | canCreateCustomers
  | canEditCustomers
  | canDeleteCustomers
  | canViewCustomers

fun ROLE_PERMISSIONS :: "UserRole \<Rightarrow> Action \<Rightarrow> bool" where
  "ROLE_PERMISSIONS SUPER_ADMIN a = True"
| "ROLE_PERMISSIONS MANAGER a = (a \<noteq> canManageUsers \<and> a \<noteq> canManageSettings)"
| "ROLE_PERMISSIONS VIEWER a = (a = canViewCustomers)"

definition roleHasPermission :: "UserRole \<Rightarrow> Action \<Rightarrow> bool" where
  "roleHasPermission r a = ROLE_PERMISSIONS r a"

fun roleHierarchy :: "UserRole \<Rightarrow> nat" where
  "roleHierarchy SUPER_ADMIN = 3"
| "roleHierarchy MANAGER = 2"
| "roleHierarchy VIEWER = 1"

definition roleIsAtLeast :: "UserRole \<Rightarrow> UserRole \<Rightarrow> bool" where
  "roleIsAtLeast firstRole secondRole = (roleHierarchy firstRole \<ge> roleHierarchy secondRole)"

text \<open>A role is a string at run time; this is the text a template literal prints for it.\<close>

fun roleString :: "UserRole \<Rightarrow> jsstring" where
  "roleString SUPER_ADMIN = js ''SUPER_ADMIN''"
| "roleString MANAGER = js ''MANAGER''"
| "roleString VIEWER = js ''VIEWER''"

text \<open>A JSON response: the HTTP status and the \<open>error\<close> text of a failure body.\<close>

record ErrorResponse =
  status :: nat
  errorText :: jsstring

record RBACOptions =
  minimumRole :: "UserRole option"
  requiredAction :: "Action option"
  optOrganizationId :: "ident option"

datatype RBACResult = Authorized User | Unauthorized ErrorResponse

definition withRBAC :: "ident option \<Rightarrow> RBACOptions \<Rightarrow> db \<Rightarrow> RBACResult \<times> db" where
  "withRBAC session options d =
     (case getCurrentUser session d of
        (None, d') \<Rightarrow>
          (Unauthorized \<lparr>status = 401, errorText = js ''Authentication required''\<rparr>, d')
      | (Some u, d') \<Rightarrow>
          if truthy (optOrganizationId options)
             \<and> userOrganizationId u \<noteq> the (optOrganizationId options)
          then (Unauthorized \<lparr>status = 403,
                             errorText = js ''Access denied: Invalid organization''\<rparr>, d')
          else if minimumRole options \<noteq> None
                  \<and> \<not> roleIsAtLeast (role u) (the (minimumRole options))
          then (Unauthorized \<lparr>status = 403,
                             errorText = js ''Access denied: Minimum role ''
                               @ roleString (the (minimumRole options)) @ js '' required''\<rparr>, d')
          else if requiredAction options \<noteq> None
                  \<and> \<not> roleHasPermission (role u) (the (requiredAction options))
          then (Unauthorized \<lparr>status = 403,
                             errorText = js ''Access denied: Insufficient permissions''\<rparr>, d')
          else (Authorized u, d'))"

text \<open>\<open>s.includes(t)\<close>: \<open>t\<close> occurs in \<open>s\<close>.\<close>

fun startsWith :: "jsstring \<Rightarrow> jsstring \<Rightarrow> bool" where
  "startsWith s [] = True"
| "startsWith [] (y # ys) = False"
| "startsWith (x # xs) (y # ys) = (x = y \<and> startsWith xs ys)"

fun strIncludes :: "jsstring \<Rightarrow> jsstring \<Rightarrow> bool" where
  "strIncludes [] t = (t = [])"
| "strIncludes (x # xs) t = (startsWith (x # xs) t \<or> strIncludes xs t)"

text \<open>A message names a role when the role's identifier occurs in it.\<close>

definition namesRole :: "jsstring \<Rightarrow> UserRole \<Rightarrow> bool" where
  "namesRole msg r = strIncludes msg (roleString r)"

section \<open>Internal users\<close>










section \<open>Tenant resolver\<close>

definition getOrganizationBySlug ::
  "jsstring \<Rightarrow> db \<Rightarrow> (Organization \<times> OrganizationSettings option) option \<times> db" where
  "getOrganizationBySlug slug d =
     (case organization_findUnique slug d of
        (Inl e, d') \<Rightarrow> (None, d')
      | (Inr r, d') \<Rightarrow> (r, d'))"

definition createOrganization ::
  "jsstring \<Rightarrow> jsstring \<Rightarrow> db \<Rightarrow> (Organization \<times> OrganizationSettings option) option \<times> db" where
  "createOrganization name slug d =
     (case organization_create name slug (js ''United States'') d of
        (Inl e, d') \<Rightarrow> (None, d')
      | (Inr r, d') \<Rightarrow> (Some r, d'))"

section \<open>Request handlers\<close>

datatype ApiResponse =
    ApiError nat jsstring "(jsstring \<times> jsstring list) list option"
  | Registered ident bool jsstring
  | CustomerCreated ident jsstring
  | SettingsOk OrganizationSettings

text \<open>\<open>acc[err.field] = [err.message]\<close> for each error in turn.\<close>

fun setProp :: "jsstring \<Rightarrow> 'v \<Rightarrow> (jsstring \<times> 'v) list \<Rightarrow> (jsstring \<times> 'v) list" where
  "setProp k v [] = [(k, v)]"
| "setProp k v ((k', v') # kvs) = (if k = k' then (k, v) # kvs else (k', v') # setProp k v kvs)"

definition detailsOf :: "ValidationError list \<Rightarrow> (jsstring \<times> jsstring list) list" where
  "detailsOf errors = fold (\<lambda>err acc. setProp (field err) [errorMessage err] acc) errors []"

text \<open>\<open>tenantId.charAt(0).toUpperCase() + tenantId.slice(1).replace(/-/g, " ")\<close>\<close>

definition orgNameOf :: "runtime \<Rightarrow> jsstring \<Rightarrow> jsstring" where
  "orgNameOf rt tenantId =
     toUpperCase rt (take 1 tenantId) @ map (\<lambda>c. if c = 0x2D then 0x20 else c) (drop 1 tenantId)"

text \<open>\<open>v?.trim() || null\<close> and \<open>v || null\<close>\<close>

definition trimOrNull :: "jsstring option \<Rightarrow> jsstring option" where
  "trimOrNull v = (case v of None \<Rightarrow> None | Some s \<Rightarrow> if trim s = [] then None else Some (trim s))"

definition orNull :: "jsstring option \<Rightarrow> jsstring option" where
  "orNull v = (if truthy v then v else None)"

definition newCustomer ::
  "runtime \<Rightarrow> Organization \<Rightarrow> CustomerRegistrationData \<Rightarrow> jsstring \<Rightarrow> ident option \<Rightarrow> Customer" where
  "newCustomer rt organization body ph creator =
     \<lparr>customerId = [], organizationId = orgId organization,
      firstName = trim (dataFirstName body), lastName = trim (dataLastName body),
      phone = ph, birthDate = dateParse rt (dataBirthDate body),
      email = trimOrNull (dataEmail body),
      addressLine1 = trimOrNull (dataAddressLine1 body),
      addressLine2 = trimOrNull (dataAddressLine2 body),
      city = trimOrNull (dataCity body), state = trimOrNull (dataState body),
      postalCode = trimOrNull (dataPostalCode body), country = orNull (dataCountry body),
      consentGiven = dataConsentGiven body, createdBy = creator, updatedBy = creator\<rparr>"

text \<open>
  \<open>db.customer.create\<close> as the handlers call it: the client refuses a missing phone or an
  invalid date before any query is sent, by throwing a value without \<open>code\<close>.
\<close>

definition createCustomerRecord ::
  "runtime \<Rightarrow> Organization \<Rightarrow> CustomerRegistrationData \<Rightarrow> jsstring option \<Rightarrow> ident option \<Rightarrow> db
     \<Rightarrow> (exn + Customer) \<times> db" where
  "createCustomerRecord rt organization body ph creator d =
     (if ph = None \<or> dateParse rt (dataBirthDate body) = None then (Inl ErrorOther, d)
      else customer_create (newCustomer rt organization body (the ph) creator) d)"

text \<open>The \<open>catch\<close> around the insert, shared by both handlers that create customers.\<close>

definition createFailure :: "exn \<Rightarrow> ApiResponse" where
  "createFailure e =
     (case e of
        ErrorWithCode code \<Rightarrow>
          if code = js ''P2002'' then ApiError 409 (js ''Phone number already registered'') None
          else ApiError 500 (js ''Failed to create customer record'') None
      | ErrorOther \<Rightarrow> ApiError 500 (js ''Failed to create customer record'') None)"

definition phoneFailure :: "PhoneValidationWithAvailability \<Rightarrow> ApiResponse" where
  "phoneFailure pv =
     ApiError 400 (if truthy (error pv) then the (error pv) else js ''Invalid phone number'') None"

text \<open>
  \<open>POST /api/[tenantId]/customers/register\<close>. \<open>others\<close> is what other requests do to
  storage between this request's availability check and its insert; it is the identity
  when the request runs alone.
\<close>

definition register_insert ::
  "runtime \<Rightarrow> Organization \<Rightarrow> bool \<Rightarrow> CustomerRegistrationData \<Rightarrow> PhoneValidationWithAvailability
     \<Rightarrow> db \<Rightarrow> ApiResponse \<times> db" where
  "register_insert rt organization isFirstCustomer body pv d =
     (case createCustomerRecord rt organization body (formatted pv) None d of
        (Inr c, d') \<Rightarrow>
          (Registered (customerId c) isFirstCustomer
             (if isFirstCustomer then js ''Registration successful! You are the first customer.''
              else js ''Registration successful!''), d')
      | (Inl e, d') \<Rightarrow> (createFailure e, d'))"

definition registerCountry :: "OrganizationSettings option \<Rightarrow> CustomerRegistrationData \<Rightarrow> jsstring" where
  "registerCountry s body =
     (if s \<noteq> None \<and> settingsCountry (the s) \<noteq> [] then settingsCountry (the s)
      else if truthy (dataCountry body) then the (dataCountry body)
      else js ''United States'')"

text \<open>
  The organization of the request: the one found under the slug, or a new one, in which
  case the registrant is the first customer.
\<close>

definition register_organization ::
  "runtime \<Rightarrow> jsstring \<Rightarrow> db
     \<Rightarrow> ((Organization \<times> OrganizationSettings option) option \<times> bool) \<times> db" where
  "register_organization rt tenantId d =
     (case getOrganizationBySlug tenantId d of
        (Some found, d1) \<Rightarrow> ((Some found, False), d1)
      | (None, d1) \<Rightarrow>
          (case createOrganization (orgNameOf rt tenantId) tenantId d1 of
             (created, d2) \<Rightarrow> ((created, True), d2)))"

text \<open>
  The handler up to the point where it decides to insert: either the response it returns
  early, or the organization, \<open>isFirstCustomer\<close> and the result of the phone check.
\<close>

definition register_check ::
  "runtime \<Rightarrow> phonelib \<Rightarrow> int \<Rightarrow> int \<Rightarrow> jsstring \<Rightarrow> CustomerRegistrationData \<Rightarrow> db
     \<Rightarrow> (ApiResponse + Organization \<times> bool \<times> PhoneValidationWithAvailability) \<times> db" where
  "register_check rt lib today minNow tenantId body d =
     (if validateCustomerRegistration rt today minNow body \<noteq> []
      then (Inl (ApiError 400 (js ''Validation failed'')
              (Some (detailsOf (validateCustomerRegistration rt today minNow body)))), d)
      else case register_organization rt tenantId d of
          ((None, isFirstCustomer), d2) \<Rightarrow>
            (Inl (ApiError 500 (js ''Failed to create organization'') None), d2)
        | ((Some (organization, s), isFirstCustomer), d2) \<Rightarrow>
            (case validatePhoneAndCheckAvailability lib (dataPhone body)
                    (registerCountry s body) (orgId organization) None d2 of
               (Inl e, d3) \<Rightarrow> (Inl (ApiError 500 (js ''Internal server error'') None), d3)
             | (Inr pv, d3) \<Rightarrow>
                 if \<not> isValid pv \<or> available pv = Some False
                 then (Inl (phoneFailure pv), d3)
                 else (Inr (organization, isFirstCustomer, pv), d3)))"

definition register_POST ::
  "runtime \<Rightarrow> phonelib \<Rightarrow> int \<Rightarrow> int \<Rightarrow> (db \<Rightarrow> db) \<Rightarrow> jsstring \<Rightarrow> CustomerRegistrationData \<Rightarrow> db
     \<Rightarrow> ApiResponse \<times> db" where
  "register_POST rt lib today minNow others tenantId body d =
     (case register_check rt lib today minNow tenantId body d of
        (Inl response, d3) \<Rightarrow> (response, d3)
      | (Inr (organization, isFirstCustomer, pv), d3) \<Rightarrow>
          register_insert rt organization isFirstCustomer body pv (others d3))"

text \<open>\<open>POST /api/[tenantId]/customers/create\<close>, for signed-in internal users.\<close>

definition adminCountry :: "OrganizationSettings option \<Rightarrow> CustomerRegistrationData \<Rightarrow> jsstring" where
  "adminCountry s body =
     (if truthy (dataCountry body) then the (dataCountry body)
      else if s \<noteq> None \<and> settingsCountry (the s) \<noteq> [] then settingsCountry (the s)
      else js ''United States'')"

definition adminCreate_insert ::
  "runtime \<Rightarrow> Organization \<Rightarrow> User \<Rightarrow> CustomerRegistrationData \<Rightarrow> PhoneValidationWithAvailability
     \<Rightarrow> db \<Rightarrow> ApiResponse \<times> db" where
  "adminCreate_insert rt organization internalUser body pv d =
     (case createCustomerRecord rt organization body (formatted pv) (Some (userId internalUser)) d of
        (Inr c, d') \<Rightarrow> (CustomerCreated (customerId c) (js ''Customer created successfully''), d')
      | (Inl e, d') \<Rightarrow> (createFailure e, d'))"

definition adminCreate_POST ::
  "runtime \<Rightarrow> phonelib \<Rightarrow> int \<Rightarrow> int \<Rightarrow> (db \<Rightarrow> db) \<Rightarrow> ident option \<Rightarrow> jsstring
     \<Rightarrow> CustomerRegistrationData \<Rightarrow> db \<Rightarrow> ApiResponse \<times> db" where
  "adminCreate_POST rt lib today minNow others session tenantId body d =
     (if \<not> truthy session then (ApiError 401 (js ''Unauthorized'') None, d)
      else case getOrganizationBySlug tenantId d of
          (None, d1) \<Rightarrow> (ApiError 404 (js ''Organization not found'') None, d1)
        | (Some (organization, s), d1) \<Rightarrow>
            (case getUserByClerkId (the session) d1 of
               (None, d2) \<Rightarrow> (ApiError 403 (js ''Forbidden'') None, d2)
             | (Some internalUser, d2) \<Rightarrow>
                 if userOrganizationId internalUser \<noteq> orgId organization
                 then (ApiError 403 (js ''Forbidden'') None, d2)
                 else if role internalUser = VIEWER
                 then (ApiError 403 (js ''Insufficient permissions to create customers'') None, d2)
                 else if validateCustomerRegistration rt today minNow body \<noteq> []
                 then (ApiError 400 (js ''Validation failed'')
                         (Some (detailsOf (validateCustomerRegistration rt today minNow body))), d2)
                 else case validatePhoneAndCheckAvailability lib (dataPhone body)
                             (adminCountry s body) (orgId organization) None d2 of
                     (Inl e, d3) \<Rightarrow> (ApiError 500 (js ''Internal server error'') None, d3)
                   | (Inr pv, d3) \<Rightarrow>
                       if \<not> isValid pv \<or> available pv = Some False then (phoneFailure pv, d3)
                       else adminCreate_insert rt organization internalUser body pv (others d3)))"

text \<open>\<open>GET /api/[tenantId]/settings\<close>\<close>

definition settings_GET :: "ident option \<Rightarrow> jsstring \<Rightarrow> db \<Rightarrow> ApiResponse \<times> db" where
  "settings_GET session tenantId d =
     (if \<not> truthy session then (ApiError 401 (js ''Unauthorized'') None, d)
      else case getOrganizationBySlug tenantId d of
          (None, d1) \<Rightarrow> (ApiError 404 (js ''Organization not found'') None, d1)
        | (Some (organization, s), d1) \<Rightarrow>
            (case getUserByClerkId (the session) d1 of
               (None, d2) \<Rightarrow> (ApiError 403 (js ''Forbidden'') None, d2)
             | (Some internalUser, d2) \<Rightarrow>
                 if userOrganizationId internalUser \<noteq> orgId organization
                 then (ApiError 403 (js ''Forbidden'') None, d2)
                 else if role internalUser \<noteq> SUPER_ADMIN
                 then (ApiError 403 (js ''Only super admins can access settings'') None, d2)
                 else case settings_findUnique (orgId organization) d2 of
                     (Inl e, d3) \<Rightarrow> (ApiError 500 (js ''Internal server error'') None, d3)
                   | (Inr (Some st), d3) \<Rightarrow> (SettingsOk st, d3)
                   | (Inr None, d3) \<Rightarrow>
                       (case settings_create
                               \<lparr>settingsOrganizationId = orgId organization,
                                settingsCountry = js ''United States''\<rparr> d3 of
                          (Inl e, d4) \<Rightarrow> (ApiError 500 (js ''Internal server error'') None, d4)
                        | (Inr st, d4) \<Rightarrow> (SettingsOk st, d4))))"

section \<open>A concrete tenant database\<close>

text \<open>
  Two tenants for concrete evaluation. The first has a super admin, a manager, a viewer and
  one customer; the second has neither users nor customers. Neither has a settings row, so
  the handlers take the country from the request.
\<close>

definition exampleUser :: "string \<Rightarrow> string \<Rightarrow> UserRole \<Rightarrow> User" where
  "exampleUser uid clerk r =
     \<lparr>userId = js uid, clerkUserId = js clerk, userEmail = js clerk @ js ''@acme.test'',
      userFirstName = js ''Ann'', userLastName = js ''Lee'', role = r,
      userOrganizationId = js ''org-1''\<rparr>"

definition exampleCustomer :: Customer where
  "exampleCustomer =
     \<lparr>customerId = js ''cust-1'', organizationId = js ''org-1'', firstName = js ''John'',
      lastName = js ''Doe'', phone = js ''+12133734253'', birthDate = Some 632361600000,
      email = None, addressLine1 = None, addressLine2 = None, city = None, state = None,
      postalCode = None, country = None, consentGiven = True, createdBy = None,
      updatedBy = None\<rparr>"

definition exampleDb :: db where
  "exampleDb =
     \<lparr>organizations =
        [\<lparr>orgId = js ''org-1'', orgName = js ''Acme'', orgSlug = js ''acme''\<rparr>,
         \<lparr>orgId = js ''org-2'', orgName = js ''Globex'', orgSlug = js ''globex''\<rparr>],
      settings = [],
      customers = [exampleCustomer],
      users = [exampleUser ''user-1'' ''clerk-admin'' SUPER_ADMIN,
               exampleUser ''user-2'' ''clerk-manager'' MANAGER,
               exampleUser ''user-3'' ''clerk-viewer'' VIEWER],
      nextId = 0, faults = [], queries = []\<rparr>"

definition exampleBody :: CustomerRegistrationData where
  "exampleBody =
     \<lparr>dataFirstName = js ''Jane'', dataLastName = js ''Smith'', dataPhone = js ''(213) 373-4253'',
      dataBirthDate = js ''1990-01-15'', dataEmail = None, dataAddressLine1 = None,
      dataAddressLine2 = None, dataCity = None, dataState = None, dataPostalCode = None,
      dataCountry = Some (js ''US''), dataConsentGiven = True\<rparr>"

section \<open>Properties of the matcher\<close>

lemma fold_deriv_Zero: "fold deriv s Zero = Zero"
  by (induction s) simp_all

lemma fold_deriv_Alt: "fold deriv s (Alt a b) = Alt (fold deriv s a) (fold deriv s b)"
  by (induction s arbitrary: a b) simp_all

lemma fold_deriv_Seq_Zero: "fold deriv s (Seq Zero r) = Seq Zero r"
  by (induction s) simp_all

lemma matches_Nil: "matches r [] = nullable r"
  by (simp add: matches_def)

lemma matches_Cons: "matches r (c # s) = matches (deriv c r) s"
  by (simp add: matches_def)

lemma matches_Zero: "matches Zero s = False"
  by (simp add: matches_def fold_deriv_Zero)

lemma matches_Alt: "matches (Alt a b) s = (matches a s \<or> matches b s)"
  by (simp add: matches_def fold_deriv_Alt)

lemma matches_One: "matches One s = (s = [])"
  by (cases s) (simp_all add: matches_Nil matches_Cons matches_Zero)

lemma matches_Seq_Zero: "matches (Seq Zero r) s = False"
  by (simp add: matches_def fold_deriv_Seq_Zero)

lemma matches_Seq_One: "matches (Seq One r) s = matches r s"
  by (cases s) (simp_all add: matches_Nil matches_Cons matches_Alt matches_Seq_Zero)

lemma matches_Seq_Cls:
  "matches (Seq (Cls p) r) s = (case s of [] \<Rightarrow> False | c # t \<Rightarrow> p c \<and> matches r t)"
  by (cases s) (simp_all add: matches_Nil matches_Cons matches_Seq_One matches_Seq_Zero)

lemma matches_Opt: "matches (Opt r) s = (s = [] \<or> matches r s)"
  by (simp add: Opt_def matches_Alt matches_One)

lemma matches_Star_Cls: "matches (Star (Cls p)) s = list_all p s"
proof (induction s)
  case Nil
  show ?case by (simp add: matches_Nil)
next
  case (Cons c t)
  then show ?case
    by (simp add: matches_Cons matches_Seq_One matches_Seq_Zero)
qed

lemma matches_Plus_Cls: "matches (Plus (Cls p)) s = (s \<noteq> [] \<and> list_all p s)"
  by (cases s) (simp_all add: Plus_def matches_Seq_Cls matches_Star_Cls)

lemma matches_Rep_Cls:
  "matches (Rep (Cls p) m n) s = (m \<le> length s \<and> length s \<le> n \<and> list_all p s)"
proof (induction "Cls p" m n arbitrary: s rule: Rep.induct)
  case 1
  show ?case by (auto simp add: matches_One)
next
  case (2 n)
  then show ?case
    by (cases s) (auto simp add: matches_Opt matches_Seq_Cls)
next
  case (3 m)
  show ?case by (auto simp add: matches_Zero)
next
  case (4 m n)
  then show ?case
    by (cases s) (auto simp add: matches_Seq_Cls)
qed

lemma isE164Format_eq: "isE164Format s = isCanonicalForm s"
proof (cases s)
  case Nil
  then show ?thesis
    by (simp add: isE164Format_def isCanonicalForm_def e164Regex_def Chr_def matches_Seq_Cls)
next
  case (Cons p rest)
  then show ?thesis
    by (cases rest)
      (auto simp add: isE164Format_def isCanonicalForm_def e164Regex_def Chr_def
        matches_Seq_Cls matches_Rep_Cls)
qed

text \<open>
  C6. For every string \<open>s\<close>, \<open>isE164Format s\<close> is true exactly when \<open>s\<close> is a plus sign, a
  non-zero leading digit and 1 to 14 further digits, with nothing before, between or after.
\<close>

theorem isE164Format_iff_canonical: "isE164Format s = isCanonicalForm s"
proof (cases s)
  case Nil
  then show ?thesis
    by (simp add: isE164Format_def isCanonicalForm_def e164Regex_def Chr_def matches_Seq_Cls)
next
  case (Cons p rest)
  show ?thesis
  proof (cases rest)
    case Nil
    with Cons show ?thesis
      by (simp add: isE164Format_def isCanonicalForm_def e164Regex_def Chr_def matches_Seq_Cls)
  next
    case (Cons d ds)
    have "matches e164Regex (p # d # ds) =
        (p = 0x2B \<and> isNonZeroDigit d \<and> matches (Rep (Cls isDigit) 1 14) ds)"
      by (simp add: e164Regex_def Chr_def matches_Seq_Cls)
    also have "\<dots> = (p = 0x2B \<and> isNonZeroDigit d
        \<and> 1 \<le> length ds \<and> length ds \<le> 14 \<and> list_all isDigit ds)"
      by (simp add: matches_Rep_Cls)
    finally show ?thesis
      using \<open>s = p # rest\<close> Cons by (simp add: isE164Format_def isCanonicalForm_def)
  qed
qed

theorem isE164Format_iff_canonical_witness:
  "isE164Format (js ''+15551234567'') \<and> \<not> isE164Format (js ''555-123-4567'')"
  using isE164Format_iff_canonical [of "js ''+15551234567''"]
    isE164Format_iff_canonical [of "js ''555-123-4567''"]
  by (simp add: isCanonicalForm_def js_def isDigit_def isNonZeroDigit_def)

section \<open>Availability checker\<close>

lemma checkPhoneAvailability_try_not_canonical:
  "\<not> isE164Format ph \<Longrightarrow>
   checkPhoneAvailability_try ph org ex d =
     (Inr \<lparr>isAvailable = False, message = Some (js ''Phone number must be in E.164 format'')\<rparr>, d)"
  by (simp add: checkPhoneAvailability_try_def)

text \<open>
  C5. On an input that is not in canonical form the availability checker answers unavailable
  with the format message and leaves the persistence layer as it was, its call log included:
  no lookup is made. The combined helper, when formatting fails, returns the formatter's
  failure and leaves the persistence layer as it was too.
\<close>

theorem non_canonical_never_looked_up:
  "(\<not> isE164Format ph \<longrightarrow>
      checkPhoneAvailability ph org ex d =
        (Inr \<lparr>isAvailable = False,
              message = Some (js ''Phone number must be in E.164 format'')\<rparr>, d))
   \<and> (\<not> isValid (validateAndFormatPhone lib inp cc)
        \<or> \<not> truthy (formatted (validateAndFormatPhone lib inp cc)) \<longrightarrow>
      validatePhoneAndCheckAvailability lib inp cc org ex d =
        (Inr (withoutAvailability (validateAndFormatPhone lib inp cc)), d))"
  by (simp add: checkPhoneAvailability_def checkPhoneAvailability_try_not_canonical
      validatePhoneAndCheckAvailability_def Let_def)

theorem non_canonical_never_looked_up_witness:
  "\<not> isE164Format (js ''1234567890'')
   \<and> checkPhoneAvailability (js ''1234567890'') (js ''org-123'') None emptyDb =
        (Inr \<lparr>isAvailable = False,
              message = Some (js ''Phone number must be in E.164 format'')\<rparr>, emptyDb)
   \<and> \<not> isValid (validateAndFormatPhone exampleLib (js ''invalid'') (js ''US''))
   \<and> validatePhoneAndCheckAvailability exampleLib (js ''invalid'') (js ''US'') (js ''org-123'')
          None emptyDb =
        (Inr (withoutAvailability
               (invalidPhone ''Invalid phone number for the selected country'')), emptyDb)"
proof -
  have h1: "\<not> isE164Format (js ''1234567890'')"
    by (simp add: isE164Format_eq isCanonicalForm_def js_def)
  have h2: "validateAndFormatPhone exampleLib (js ''invalid'') (js ''US'') =
              invalidPhone ''Invalid phone number for the selected country''"
    by (simp add: validateAndFormatPhone_def exampleLib_def cleanPhone_def isSeparator_def
        isSpace_def usNational_def js_def)
  have h3: "\<not> isValid (validateAndFormatPhone exampleLib (js ''invalid'') (js ''US''))"
    by (simp add: h2 invalidPhone_def)
  from h1 h2 h3
    non_canonical_never_looked_up [of "js ''1234567890''" "js ''org-123''" None emptyDb
      exampleLib "js ''invalid''" "js ''US''"]
  show ?thesis by simp
qed

lemma customer_findFirst_fault:
  "faults d = Some e # fs \<Longrightarrow> fst (customer_findFirst org ph x d) = Inl e"
  by (simp add: customer_findFirst_def db_call_def)

lemma customer_findFirst_ok:
  "fst (customer_findFirst org ph x d) = Inr r \<Longrightarrow>
     (faults d = [] \<or> (\<exists>fs. faults d = None # fs))
     \<and> r = find (customer_where org ph x) (customers d)"
  by (auto simp add: customer_findFirst_def db_call_def split: list.splits option.splits)

lemma checkPhoneAvailability_canonical:
  "isE164Format ph \<Longrightarrow>
   customer_findFirst org ph (if truthy ex then ex else None) d = (res, d') \<Longrightarrow>
   checkPhoneAvailability ph org ex d =
     (case res of
        Inl e \<Rightarrow> (Inr \<lparr>isAvailable = False,
                        message = Some (js ''Error checking phone availability'')\<rparr>, d')
      | Inr (Some existing) \<Rightarrow>
          (Inr \<lparr>isAvailable = False,
                message = Some (js ''Phone number already registered to ''
                                @ firstName existing @ js '' '' @ lastName existing)\<rparr>, d')
      | Inr None \<Rightarrow>
          (Inr \<lparr>isAvailable = True, message = Some (js ''Phone number is available'')\<rparr>, d'))"
  by (simp add: checkPhoneAvailability_def checkPhoneAvailability_try_def
      split: sum.splits option.splits)

lemma checkPhoneAvailability_returns:
  "\<exists>r d'. checkPhoneAvailability ph org ex d = (Inr r, d')"
proof (cases "checkPhoneAvailability_try ph org ex d")
  case (Pair res d')
  then show ?thesis
    by (cases res) (simp_all add: checkPhoneAvailability_def)
qed

text \<open>
  C10. The availability checker always returns a result and never throws. When storage is
  down for the lookup, the result is unavailable with the generic message; it answers
  available only when the lookup went through and found no customer of the tenant with that
  phone.
\<close>

theorem checkPhoneAvailability_fail_closed:
  "(\<exists>r d'. checkPhoneAvailability ph org ex d = (Inr r, d'))
   \<and> (isE164Format ph \<and> faults d = Some e # fs \<longrightarrow>
        fst (checkPhoneAvailability ph org ex d) =
          Inr \<lparr>isAvailable = False,
               message = Some (js ''Error checking phone availability'')\<rparr>)
   \<and> (fst (checkPhoneAvailability ph org ex d) = Inr r \<and> isAvailable r \<longrightarrow>
        isE164Format ph
        \<and> (faults d = [] \<or> (\<exists>fs'. faults d = None # fs'))
        \<and> find (customer_where org ph (if truthy ex then ex else None)) (customers d) = None)"
proof -
  obtain res d' where f: "customer_findFirst org ph (if truthy ex then ex else None) d = (res, d')"
    by (cases "customer_findFirst org ph (if truthy ex then ex else None) d")
  have fail: "fst (checkPhoneAvailability ph org ex d) =
      Inr \<lparr>isAvailable = False, message = Some (js ''Error checking phone availability'')\<rparr>"
    if "isE164Format ph" and "faults d = Some e # fs"
  proof -
    from that(2) f have "res = Inl e"
      using customer_findFirst_fault [of d e fs org ph "if truthy ex then ex else None"] by simp
    with checkPhoneAvailability_canonical [OF that(1) f] show ?thesis by simp
  qed
  have avail: "isE164Format ph
        \<and> (faults d = [] \<or> (\<exists>fs'. faults d = None # fs'))
        \<and> find (customer_where org ph (if truthy ex then ex else None)) (customers d) = None"
    if r: "fst (checkPhoneAvailability ph org ex d) = Inr r" and a: "isAvailable r"
  proof -
    have c: "isE164Format ph"
    proof (rule ccontr)
      assume "\<not> isE164Format ph"
      then have "checkPhoneAvailability ph org ex d =
          (Inr \<lparr>isAvailable = False,
                message = Some (js ''Phone number must be in E.164 format'')\<rparr>, d)"
        by (simp add: checkPhoneAvailability_def checkPhoneAvailability_try_not_canonical)
      with r a show False by auto
    qed
    have "res = Inr None"
    proof (cases res)
      case (Inl x)
      with checkPhoneAvailability_canonical [OF c f] r a show ?thesis by auto
    next
      case (Inr o1)
      with checkPhoneAvailability_canonical [OF c f] r a show ?thesis
        by (cases o1) auto
    qed
    with f have "fst (customer_findFirst org ph (if truthy ex then ex else None) d) = Inr None"
      by simp
    from customer_findFirst_ok [OF this] c show ?thesis by simp
  qed
  from checkPhoneAvailability_returns fail avail show ?thesis by blast
qed

theorem checkPhoneAvailability_fail_closed_witness:
  "isE164Format (js ''+11234567890'')
   \<and> faults (emptyDb\<lparr>faults := [Some ErrorOther]\<rparr>) = [Some ErrorOther]
   \<and> fst (checkPhoneAvailability (js ''+11234567890'') (js ''org-123'') None
            (emptyDb\<lparr>faults := [Some ErrorOther]\<rparr>)) =
        Inr \<lparr>isAvailable = False, message = Some (js ''Error checking phone availability'')\<rparr>"
proof -
  have h1: "isE164Format (js ''+11234567890'')"
    by (simp add: isE164Format_eq isCanonicalForm_def js_def isDigit_def isNonZeroDigit_def)
  have h2: "faults (emptyDb\<lparr>faults := [Some ErrorOther]\<rparr>) = [Some ErrorOther]"
    by simp
  have "fst (checkPhoneAvailability (js ''+11234567890'') (js ''org-123'') None
            (emptyDb\<lparr>faults := [Some ErrorOther]\<rparr>)) =
        Inr \<lparr>isAvailable = False, message = Some (js ''Error checking phone availability'')\<rparr>"
    using checkPhoneAvailability_fail_closed [of "js ''+11234567890''" "js ''org-123''" None
      "emptyDb\<lparr>faults := [Some ErrorOther]\<rparr>" ErrorOther "[]"] h1 h2
    by blast
  with h1 h2 show ?thesis by blast
qed

section \<open>Name validator\<close>

lemma trim_Nil: "trim [] = []"
  by (simp add: trim_def)

lemma validateName_None_iff:
  "(validateName name fieldName = None) =
     (2 \<le> length (trim name) \<and> length name \<le> 100 \<and> list_all isNameChar name)"
proof (cases "name = []")
  case True
  then show ?thesis by (simp add: validateName_def trim_Nil)
next
  case False
  then show ?thesis
    by (auto simp add: validateName_def nameRegex_def matches_Plus_Cls)
qed

text \<open>
  C9, as stated, fails: a name of 100 letters followed by one space is, after trimming, 100
  characters long and made of letters only, and the validator rejects it, because the upper
  bound is measured on the string as given.
\<close>

theorem validateName_trailing_space_counterexample:
  "length (trim (replicate 100 0x61 @ [0x20])) = 100
   \<and> list_all (\<lambda>c. isLetter c \<or> c = 0x20 \<or> c = 0x2D \<or> c = 0x27)
        (trim (replicate 100 0x61 @ [0x20]))
   \<and> validateName (replicate 100 0x61 @ [0x20]) FirstNameField =
       Some \<lparr>field = js ''firstName'',
             errorMessage = js ''First name must be less than 100 characters''\<rparr>"
proof -
  have a: "\<not> isSpace 0x61" by (simp add: isSpace_def)
  have t: "trim (replicate 100 0x61 @ [0x20]) = replicate 100 0x61"
    by (simp add: trim_def isSpace_def dropWhile_append3 a)
  show ?thesis
    by (simp add: t validateName_def fieldString_def fieldLabel_def list_all_iff
        isLetter_def isLower_def js_def)
qed

text \<open>
  C9, amended. The name validator accepts a string exactly when its trimmed length is at
  least 2, its length as given (before trimming) is at most 100, and every code unit of it is
  an ASCII letter, a white-space character (anything \<open>\s\<close> matches), a hyphen or an
  apostrophe.
\<close>

theorem validateName_accepts_iff:
  "(validateName name fieldName = None) =
     (2 \<le> length (trim name) \<and> length name \<le> 100 \<and> list_all isNameChar name)"
proof (cases "name = [] \<or> length (trim name) < 2 \<or> length name > 100")
  case True
  then show ?thesis
    by (auto simp add: validateName_def trim_Nil)
next
  case False
  then have "(validateName name fieldName = None) = matches nameRegex name"
    by (auto simp add: validateName_def)
  also have "\<dots> = list_all isNameChar name"
    using False by (simp add: nameRegex_def matches_Plus_Cls)
  finally show ?thesis using False by auto
qed

theorem validateName_accepts_iff_witness:
  "validateName (js ''  Mary-Jane  '') LastNameField = None
   \<and> validateName (js '' J '') LastNameField \<noteq> None"
  using validateName_accepts_iff [of "js ''  Mary-Jane  ''" LastNameField]
    validateName_accepts_iff [of "js '' J ''" LastNameField]
  by (simp add: trim_def isSpace_def isNameChar_def isLetter_def isLower_def isUpper_def js_def)

section \<open>Calendar and birth dates\<close>

lemma succ_div:
  fixes a k :: int
  assumes "0 < k"
  shows "(a + 1) div k = a div k + (if (a + 1) mod k = 0 then 1 else 0)"
proof (cases "a mod k + 1 < k")
  case True
  have e: "a + 1 = k * (a div k) + (a mod k + 1)" by simp
  from assms have n: "0 \<le> a mod k + 1" by (simp add: add_nonneg_nonneg)
  have "(a + 1) div k = a div k"
    using int_div_pos_eq [OF e n True] .
  moreover have "(a + 1) mod k = a mod k + 1"
    using int_mod_pos_eq [OF e n True] .
  moreover from assms have "0 \<le> a mod k" by simp
  ultimately show ?thesis by simp
next
  case False
  with assms have r: "a mod k + 1 = k"
    using pos_mod_bound [of k a] by linarith
  have "a + 1 = k * (a div k) + (a mod k + 1)" by simp
  with r have e: "a + 1 = k * (a div k + 1) + 0" by (simp add: algebra_simps)
  from assms have "(a + 1) div k = a div k + 1"
    using int_div_pos_eq [OF e] by simp
  moreover from assms have "(a + 1) mod k = 0"
    using int_mod_pos_eq [OF e] by simp
  ultimately show ?thesis by simp
qed

lemma mod4_shift: "((y::int) - 1968) mod 4 = 0 \<longleftrightarrow> y mod 4 = 0"
  by presburger

lemma mod100_shift: "((y::int) - 1900) mod 100 = 0 \<longleftrightarrow> y mod 100 = 0"
  by presburger

lemma mod400_shift: "((y::int) - 1600) mod 400 = 0 \<longleftrightarrow> y mod 400 = 0"
  by presburger

lemma mod400_100: "(y::int) mod 400 = 0 \<Longrightarrow> y mod 100 = 0"
  by presburger

lemma mod100_4: "(y::int) mod 100 = 0 \<Longrightarrow> y mod 4 = 0"
  by presburger

lemma DayFromYear_step: "DayFromYear (y + 1) = DayFromYear y + DaysInYear y"
proof -
  have a4: "(y + 1 - 1969) div 4 = (y - 1969) div 4 + (if y mod 4 = 0 then 1 else 0)"
    using succ_div [of 4 "y - 1969"] mod4_shift [of y] by simp
  have a100: "(y + 1 - 1901) div 100 = (y - 1901) div 100 + (if y mod 100 = 0 then 1 else 0)"
    using succ_div [of 100 "y - 1901"] mod100_shift [of y] by simp
  have a400: "(y + 1 - 1601) div 400 = (y - 1601) div 400 + (if y mod 400 = 0 then 1 else 0)"
    using succ_div [of 400 "y - 1601"] mod400_shift [of y] by simp
  show ?thesis
    unfolding DayFromYear_def DaysInYear_def a4 a100 a400
    using mod400_100 [of y] mod100_4 [of y] by auto
qed

lemma DaysInYear_cases: "DaysInYear y = 365 \<or> DaysInYear y = 366"
  by (simp add: DaysInYear_def)


lemma DaysInYear_leap: "DaysInYear y = 365 + InLeapYearOf y"
  using DaysInYear_cases [of y] by (auto simp add: InLeapYearOf_def)

lemma DayFromYear_1970: "DayFromYear 1970 = 0"
  by (simp add: DayFromYear_def)

lemma DayFromYear_back: "DayFromYear (y - 1) = DayFromYear y - DaysInYear (y - 1)"
  using DayFromYear_step [of "y - 1"] by simp

lemma DayFromYear_diff:
  "0 \<le> n \<Longrightarrow> 365 * n \<le> DayFromYear (y + n) - DayFromYear y
        \<and> DayFromYear (y + n) - DayFromYear y \<le> 366 * n"
proof (induction n rule: int_ge_induct)
  case base
  show ?case by simp
next
  case (step i)
  have "DayFromYear (y + (i + 1)) = DayFromYear (y + i) + DaysInYear (y + i)"
    using DayFromYear_step [of "y + i"] by (simp add: add.assoc)
  with step DaysInYear_cases [of "y + i"] show ?case by auto
qed

lemma DayFromYear_estimate:
  "DayFromYear (1970 + (if 0 \<le> d then d div 366 else d div 365)) \<le> d"
proof (cases "0 \<le> d")
  case True
  then have k: "0 \<le> d div 366" by (simp add: pos_imp_zdiv_nonneg_iff)
  from DayFromYear_diff [OF k, of 1970]
  have "DayFromYear (1970 + d div 366) \<le> 366 * (d div 366)"
    by (simp add: DayFromYear_1970)
  also have "\<dots> \<le> d"
    using mult_div_mod_eq [of 366 d] pos_mod_sign [of 366 d] by linarith
  finally show ?thesis using True by simp
next
  case False
  then have k: "0 \<le> - (d div 365)" by (simp add: div_neg_pos_less0 less_imp_le)
  from DayFromYear_diff [OF k, of "1970 + d div 365"]
  have "DayFromYear (1970 + d div 365) \<le> 365 * (d div 365)"
    by (simp add: DayFromYear_1970)
  also have "\<dots> \<le> d"
    using mult_div_mod_eq [of 365 d] pos_mod_sign [of 365 d] by linarith
  finally show ?thesis using False by simp
qed

lemma yearUp_bounds:
  "DayFromYear y \<le> d \<Longrightarrow>
     DayFromYear (yearUp d y) \<le> d \<and> d < DayFromYear (yearUp d y + 1)"
proof (induction d y rule: yearUp.induct)
  case (1 d y)
  show ?case
  proof (cases "DayFromYear (y + 1) \<le> d")
    case True
    with "1.IH" have "DayFromYear (yearUp d (y + 1)) \<le> d
        \<and> d < DayFromYear (yearUp d (y + 1) + 1)"
      by simp
    moreover from True have "yearUp d y = yearUp d (y + 1)"
      by (subst yearUp.simps) simp
    ultimately show ?thesis by simp
  next
    case False
    then have "yearUp d y = y"
      by (subst yearUp.simps) simp
    with False "1.prems" show ?thesis by simp
  qed
qed

lemma YearFromDay_bounds:
  "DayFromYear (YearFromDay d) \<le> d \<and> d < DayFromYear (YearFromDay d + 1)"
  unfolding YearFromDay_def
  by (rule yearUp_bounds) (rule DayFromYear_estimate)

lemma DayWithinYear_range:
  "0 \<le> DayWithinYear t \<and> DayWithinYear t < 365 + InLeapYearOf (YearFromTime t)"
  using YearFromDay_bounds [of "Day t"] DayFromYear_step [of "YearFromDay (Day t)"]
    DaysInYear_leap [of "YearFromDay (Day t)"]
  by (simp add: DayWithinYear_def YearFromTime_def)













lemma yearUp_stop: "\<not> DayFromYear (y + 1) \<le> d \<Longrightarrow> yearUp d y = y"
  by (subst yearUp.simps) simp

lemma example_now_fields:
  "YearFromTime 1793707200000 = 2026"
  "MonthFromTime 1793707200000 = 10"
  "DateFromTime 1793707200000 = 3"
  "TimeWithinDay 1793707200000 = 43200000"
proof -
  have d: "Day 1793707200000 = 20760"
    by (simp add: Day_def msPerDay_def)
  have "YearFromDay 20760 = 2026"
    by (simp add: YearFromDay_def yearUp_stop DayFromYear_def)
  with d show y: "YearFromTime 1793707200000 = 2026"
    by (simp add: YearFromTime_def)
  have w: "DayWithinYear 1793707200000 = 306"
    by (simp add: DayWithinYear_def y d DayFromYear_def)
  have l: "InLeapYearOf 2026 = 0"
    by (simp add: InLeapYearOf_def DaysInYear_def)
  show m: "MonthFromTime 1793707200000 = 10"
    by (simp add: MonthFromTime_def y w l monthOfDay_def)
  show "DateFromTime 1793707200000 = 3"
    by (simp add: DateFromTime_def y w l m monthStart_def)
  show "TimeWithinDay 1793707200000 = 43200000"
    by (simp add: TimeWithinDay_def msPerDay_def)
qed



section \<open>Authorization denials\<close>

lemma exampleDb_viewer:
  "getCurrentUser (Some (js ''clerk-viewer'')) exampleDb =
     (Some (exampleUser ''user-3'' ''clerk-viewer'' VIEWER),
      exampleDb\<lparr>queries := [UserFindUnique (js ''clerk-viewer'')]\<rparr>)"
  by (simp add: getCurrentUser_def user_findUnique_def db_call_def exampleDb_def exampleUser_def
      js_def)

text \<open>
  C2, as stated, fails: a viewer who calls an operation gated by the minimum role
  \<open>MANAGER\<close> is told \<open>Access denied: Minimum role MANAGER required\<close>, which names a role
  that would have succeeded.
\<close>

theorem withRBAC_names_minimum_role_counterexample:
  "fst (withRBAC (Some (js ''clerk-viewer''))
          \<lparr>minimumRole = Some MANAGER, requiredAction = None, optOrganizationId = None\<rparr>
          exampleDb) =
     Unauthorized \<lparr>status = 403,
                   errorText = js ''Access denied: Minimum role MANAGER required''\<rparr>
   \<and> namesRole (js ''Access denied: Minimum role MANAGER required'') MANAGER
   \<and> roleIsAtLeast MANAGER MANAGER"
proof -
  have "namesRole (js ''Access denied: Minimum role MANAGER required'') MANAGER"
    by (simp add: namesRole_def js_def)
  moreover have "fst (withRBAC (Some (js ''clerk-viewer''))
          \<lparr>minimumRole = Some MANAGER, requiredAction = None, optOrganizationId = None\<rparr>
          exampleDb) =
     Unauthorized \<lparr>status = 403,
                   errorText = js ''Access denied: Minimum role MANAGER required''\<rparr>"
    unfolding withRBAC_def exampleDb_viewer
    by (simp add: roleIsAtLeast_def exampleUser_def js_def)
  ultimately show ?thesis by (simp add: roleIsAtLeast_def)
qed

lemma generic_message_names_no_role:
  "\<not> namesRole (js ''Access denied: Insufficient permissions'') r"
  "\<not> namesRole (js ''Insufficient permissions to create customers'') r"
  by (cases r; simp add: namesRole_def js_def)+

lemma startsWith_append: "startsWith (t @ b) t"
  by (induction t) simp_all

lemma strIncludes_startsWith: "startsWith s t \<Longrightarrow> strIncludes s t"
  by (cases s; cases t) simp_all

lemma strIncludes_prepend: "strIncludes s t \<Longrightarrow> strIncludes (a @ s) t"
  by (induction a) simp_all

lemma namesRole_embedded: "namesRole (a @ roleString m @ b) m"
  unfolding namesRole_def
  by (intro strIncludes_prepend strIncludes_startsWith startsWith_append)

lemma withRBAC_minimum_role_denied:
  assumes "getCurrentUser session d = (Some u, d')"
    and "\<not> (truthy (optOrganizationId options)
              \<and> userOrganizationId u \<noteq> the (optOrganizationId options))"
    and "minimumRole options = Some m" and "\<not> roleIsAtLeast (role u) m"
  shows "withRBAC session options d =
      (Unauthorized \<lparr>status = 403,
                     errorText = js ''Access denied: Minimum role '' @ roleString m
                                   @ js '' required''\<rparr>, d')"
  using assms by (auto simp add: withRBAC_def)

lemma withRBAC_capability_denied:
  assumes "getCurrentUser session d = (Some u, d')"
    and "\<not> (truthy (optOrganizationId options)
              \<and> userOrganizationId u \<noteq> the (optOrganizationId options))"
    and "minimumRole options = None \<or> roleIsAtLeast (role u) (the (minimumRole options))"
    and "requiredAction options = Some a" and "\<not> roleHasPermission (role u) a"
  shows "withRBAC session options d =
      (Unauthorized \<lparr>status = 403,
                     errorText = js ''Access denied: Insufficient permissions''\<rparr>, d')"
  using assms by (auto simp add: withRBAC_def)

lemma settings_GET_denied:
  assumes "truthy session" and "getOrganizationBySlug tenantId d = (Some (g, s), d1)"
    and "getUserByClerkId (the session) d1 = (Some iu, d2)"
    and "userOrganizationId iu = orgId g" and "role iu \<noteq> SUPER_ADMIN"
  shows "settings_GET session tenantId d =
      (ApiError 403 (js ''Only super admins can access settings'') None, d2)"
  using assms by (auto simp add: settings_GET_def)

lemma adminCreate_POST_denied:
  assumes "truthy session" and "getOrganizationBySlug tenantId d = (Some (g, s), d1)"
    and "getUserByClerkId (the session) d1 = (Some iu, d2)"
    and "userOrganizationId iu = orgId g" and "role iu = VIEWER"
  shows "adminCreate_POST rt lib today minNow others session tenantId body d =
      (ApiError 403 (js ''Insufficient permissions to create customers'') None, d2)"
  using assms by (auto simp add: adminCreate_POST_def)

text \<open>
  C2, amended. For an authenticated caller of the right organization: a caller below the
  required minimum role is denied by \<open>withRBAC\<close> with status 403 and a message that names
  the required minimum role; a caller who meets the minimum role but lacks the required
  capability is denied with status 403 and the generic message
  \<open>Access denied: Insufficient permissions\<close>, which names no role. In the handlers, a caller
  who is not a super admin is refused the settings with status 403 and
  \<open>Only super admins can access settings\<close>, and a viewer is refused customer creation with
  status 403 and \<open>Insufficient permissions to create customers\<close>, which names no role.
\<close>

theorem denial_messages:
  "(getCurrentUser session d = (Some u, d')
      \<and> \<not> (truthy (optOrganizationId options)
             \<and> userOrganizationId u \<noteq> the (optOrganizationId options)) \<longrightarrow>
      (minimumRole options = Some m \<and> \<not> roleIsAtLeast (role u) m \<longrightarrow>
         withRBAC session options d =
           (Unauthorized \<lparr>status = 403,
                          errorText = js ''Access denied: Minimum role '' @ roleString m
                                        @ js '' required''\<rparr>, d')
         \<and> namesRole (js ''Access denied: Minimum role '' @ roleString m @ js '' required'') m)
      \<and> ((minimumRole options = None \<or> roleIsAtLeast (role u) (the (minimumRole options)))
           \<and> requiredAction options = Some a \<and> \<not> roleHasPermission (role u) a \<longrightarrow>
         withRBAC session options d =
           (Unauthorized \<lparr>status = 403,
                          errorText = js ''Access denied: Insufficient permissions''\<rparr>, d')
         \<and> (\<forall>r. \<not> namesRole (js ''Access denied: Insufficient permissions'') r)))
   \<and> (truthy session' \<and> getOrganizationBySlug tenantId e = (Some (g, s), e1)
        \<and> getUserByClerkId (the session') e1 = (Some iu, e2)
        \<and> userOrganizationId iu = orgId g \<longrightarrow>
      (role iu \<noteq> SUPER_ADMIN \<longrightarrow>
         settings_GET session' tenantId e =
           (ApiError 403 (js ''Only super admins can access settings'') None, e2))
      \<and> (role iu = VIEWER \<longrightarrow>
         adminCreate_POST rt lib today minNow others session' tenantId body e =
           (ApiError 403 (js ''Insufficient permissions to create customers'') None, e2)
         \<and> (\<forall>r. \<not> namesRole (js ''Insufficient permissions to create customers'') r)))"
  using withRBAC_minimum_role_denied [of session d u d' options m]
    withRBAC_capability_denied [of session d u d' options a]
    settings_GET_denied [of session' tenantId e g s e1 iu e2]
    adminCreate_POST_denied [of session' tenantId e g s e1 iu e2 rt lib today minNow others body]
    namesRole_embedded [of "js ''Access denied: Minimum role ''" m "js '' required''"]
    generic_message_names_no_role
  by blast

lemma exampleDb_acme:
  "getOrganizationBySlug (js ''acme'') exampleDb =
     (Some (\<lparr>orgId = js ''org-1'', orgName = js ''Acme'', orgSlug = js ''acme''\<rparr>, None),
      exampleDb\<lparr>queries := [OrganizationFindUnique (js ''acme'')]\<rparr>)"
  by (simp add: getOrganizationBySlug_def organization_findUnique_def db_call_def exampleDb_def
      settingsOf_def js_def)

lemma exampleDb_acme_user:
  "getUserByClerkId (js ''clerk-viewer'')
     (exampleDb\<lparr>queries := [OrganizationFindUnique (js ''acme'')]\<rparr>) =
     (Some (exampleUser ''user-3'' ''clerk-viewer'' VIEWER),
      exampleDb\<lparr>queries := [OrganizationFindUnique (js ''acme''),
                               UserFindUnique (js ''clerk-viewer'')]\<rparr>)"
  by (simp add: getUserByClerkId_def user_findUnique_def db_call_def exampleDb_def exampleUser_def
      js_def)

theorem denial_messages_witness:
  "fst (withRBAC (Some (js ''clerk-viewer''))
          \<lparr>minimumRole = None, requiredAction = Some canDeleteCustomers,
           optOrganizationId = None\<rparr> exampleDb) =
     Unauthorized \<lparr>status = 403, errorText = js ''Access denied: Insufficient permissions''\<rparr>
   \<and> fst (withRBAC (Some (js ''clerk-viewer''))
          \<lparr>minimumRole = Some SUPER_ADMIN, requiredAction = None,
           optOrganizationId = None\<rparr> exampleDb) =
     Unauthorized \<lparr>status = 403,
                   errorText = js ''Access denied: Minimum role SUPER_ADMIN required''\<rparr>
   \<and> fst (settings_GET (Some (js ''clerk-viewer'')) (js ''acme'') exampleDb) =
     ApiError 403 (js ''Only super admins can access settings'') None
   \<and> fst (adminCreate_POST exampleRuntime exampleLib 1793707200000 1793707200000 id
          (Some (js ''clerk-viewer'')) (js ''acme'') exampleBody exampleDb) =
     ApiError 403 (js ''Insufficient permissions to create customers'') None"
proof -
  let ?v = "exampleUser ''user-3'' ''clerk-viewer'' VIEWER"
  let ?g = "\<lparr>orgId = js ''org-1'', orgName = js ''Acme'', orgSlug = js ''acme''\<rparr>"
  have r: "role ?v = VIEWER" "userOrganizationId ?v = orgId ?g"
    by (simp_all add: exampleUser_def)
  have t: "truthy (Some (js ''clerk-viewer''))" by (simp add: js_def)
  have p: "\<not> roleHasPermission VIEWER canDeleteCustomers" "\<not> roleIsAtLeast VIEWER SUPER_ADMIN"
    by (simp_all add: roleHasPermission_def roleIsAtLeast_def)
  have a: "withRBAC (Some (js ''clerk-viewer''))
          \<lparr>minimumRole = None, requiredAction = Some canDeleteCustomers,
           optOrganizationId = None\<rparr> exampleDb =
      (Unauthorized \<lparr>status = 403, errorText = js ''Access denied: Insufficient permissions''\<rparr>,
       exampleDb\<lparr>queries := [UserFindUnique (js ''clerk-viewer'')]\<rparr>)"
    using denial_messages [where session = "Some (js ''clerk-viewer'')" and d = exampleDb
        and u = ?v and d' = "exampleDb\<lparr>queries := [UserFindUnique (js ''clerk-viewer'')]\<rparr>"
        and options = "\<lparr>minimumRole = None, requiredAction = Some canDeleteCustomers,
           optOrganizationId = None\<rparr>" and a = canDeleteCustomers]
      exampleDb_viewer r p
    by simp
  have b: "withRBAC (Some (js ''clerk-viewer''))
          \<lparr>minimumRole = Some SUPER_ADMIN, requiredAction = None,
           optOrganizationId = None\<rparr> exampleDb =
      (Unauthorized \<lparr>status = 403,
                     errorText = js ''Access denied: Minimum role '' @ roleString SUPER_ADMIN
                                   @ js '' required''\<rparr>,
       exampleDb\<lparr>queries := [UserFindUnique (js ''clerk-viewer'')]\<rparr>)"
    using denial_messages [where session = "Some (js ''clerk-viewer'')" and d = exampleDb
        and u = ?v and d' = "exampleDb\<lparr>queries := [UserFindUnique (js ''clerk-viewer'')]\<rparr>"
        and options = "\<lparr>minimumRole = Some SUPER_ADMIN, requiredAction = None,
           optOrganizationId = None\<rparr>" and m = SUPER_ADMIN]
      exampleDb_viewer r p
    by simp
  have c: "settings_GET (Some (js ''clerk-viewer'')) (js ''acme'') exampleDb =
        (ApiError 403 (js ''Only super admins can access settings'') None,
         exampleDb\<lparr>queries := [OrganizationFindUnique (js ''acme''),
                               UserFindUnique (js ''clerk-viewer'')]\<rparr>)"
    and e: "adminCreate_POST exampleRuntime exampleLib 1793707200000 1793707200000 id
          (Some (js ''clerk-viewer'')) (js ''acme'') exampleBody exampleDb =
        (ApiError 403 (js ''Insufficient permissions to create customers'') None,
         exampleDb\<lparr>queries := [OrganizationFindUnique (js ''acme''),
                               UserFindUnique (js ''clerk-viewer'')]\<rparr>)"
    using denial_messages [where session' = "Some (js ''clerk-viewer'')" and tenantId = "js ''acme''"
        and e = exampleDb and g = ?g and s = None
        and ?e1.0 = "exampleDb\<lparr>queries := [OrganizationFindUnique (js ''acme'')]\<rparr>"
        and iu = ?v
        and ?e2.0 = "exampleDb\<lparr>queries := [OrganizationFindUnique (js ''acme''),
                               UserFindUnique (js ''clerk-viewer'')]\<rparr>"
        and rt = exampleRuntime and lib = exampleLib and today = 1793707200000
        and minNow = 1793707200000 and others = id and body = exampleBody]
      exampleDb_acme exampleDb_acme_user r t
    by simp_all
  from a b c e show ?thesis by (simp add: js_def)
qed

section \<open>Roles of new internal users\<close>

lemma db_call_tables:
  "db_call q d = (f, d') \<Longrightarrow>
     users d' = users d \<and> organizations d' = organizations d \<and> customers d' = customers d
     \<and> settings d' = settings d \<and> nextId d' = nextId d
     \<and> (faults d = [] \<longrightarrow> f = None \<and> faults d' = [])"
  by (auto simp add: db_call_def split: list.splits)










section \<open>Consent\<close>

lemma push_member: "x \<in> set errors \<Longrightarrow> x \<in> set (push e errors)"
  by (cases e) (simp_all add: push_def)

lemma pushOptional_member: "x \<in> set errors \<Longrightarrow> x \<in> set (pushOptional v f errors)"
  by (simp add: pushOptional_def push_member)

lemma push_Some_member: "x \<in> set (push (Some x) errors)"
  by (simp add: push_def)

lemma consent_error_reported:
  assumes "\<not> dataConsentGiven body"
  shows "\<lparr>field = js ''consentGiven'',
          errorMessage = js ''You must agree to the terms to continue''\<rparr>
         \<in> set (validateCustomerRegistration rt today minNow body)"
  using assms
  unfolding validateCustomerRegistration_def validateConsent_def
  by (intro pushOptional_member) (simp add: push_Some_member)

lemma validation_fails_without_consent:
  "\<not> dataConsentGiven body \<Longrightarrow> validateCustomerRegistration rt today minNow body \<noteq> []"
  using consent_error_reported [of body rt today minNow] by auto

lemma register_rejects_without_consent:
  assumes "\<not> dataConsentGiven body"
  shows "register_POST rt lib today minNow others tenantId body d =
     (ApiError 400 (js ''Validation failed'')
        (Some (detailsOf (validateCustomerRegistration rt today minNow body))), d)"
  using validation_fails_without_consent [OF assms, of rt today minNow]
  by (simp add: register_POST_def register_check_def)

lemma adminCreate_rejects_without_consent:
  assumes "\<not> dataConsentGiven body" and "truthy session"
    and "getOrganizationBySlug tenantId d = (Some (g, s), d1)"
    and "getUserByClerkId (the session) d1 = (Some iu, d2)"
    and "userOrganizationId iu = orgId g" and "role iu \<noteq> VIEWER"
  shows "adminCreate_POST rt lib today minNow others session tenantId body d =
     (ApiError 400 (js ''Validation failed'')
        (Some (detailsOf (validateCustomerRegistration rt today minNow body))), d2)"
  using validation_fails_without_consent [OF assms(1), of rt today minNow] assms(2-)
  by (auto simp add: adminCreate_POST_def)

lemma example_minDate:
  "setFullYear exampleRuntime 1793707200000 (getFullYear exampleRuntime 1793707200000 - 150) =
     Some (- 2939803200000)"
proof -
  have lt: "\<And>t. LocalTime exampleRuntime t = t"
    by (simp add: LocalTime_def exampleRuntime_def)
  have utc: "\<And>t. UTC exampleRuntime t = t"
    by (simp add: UTC_def exampleRuntime_def)
  have m: "MakeDay 1876 10 3 = - 34026"
    by (simp add: MakeDay_def DayFromYear_def InLeapYearOf_def DaysInYear_def monthStart_def)
  show ?thesis
    by (simp add: setFullYear_def getFullYear_def example_now_fields lt utc m
        MakeDate_def TimeClip_def msPerDay_def)
qed

lemma example_birthDate_valid:
  "validateBirthDate exampleRuntime 1793707200000 1793707200000 (DateString (js ''1990-01-15''))
     = None"
proof -
  have p: "dateParse exampleRuntime (js ''1990-01-15'') = Some 632361600000"
    by (simp add: exampleRuntime_def)
  have n: "js ''1990-01-15'' \<noteq> []" by (simp add: js_def)
  show ?thesis
    by (simp add: validateBirthDate_def p n example_minDate)
qed

lemma example_names_valid:
  "validateName (js ''Jane'') FirstNameField = None"
  "validateName (js ''Smith'') LastNameField = None"
  by (simp_all add: validateName_None_iff trim_def isSpace_def isNameChar_def isLetter_def
      isLower_def isUpper_def js_def)

lemma example_validation:
  "validateCustomerRegistration exampleRuntime 1793707200000 1793707200000
     (exampleBody\<lparr>dataPhone := p, dataConsentGiven := c\<rparr>) =
     (if c then []
      else [\<lparr>field = js ''consentGiven'',
             errorMessage = js ''You must agree to the terms to continue''\<rparr>])"
  by (simp add: validateCustomerRegistration_def exampleBody_def example_names_valid
      example_birthDate_valid validateConsent_def push_def pushOptional_def)

lemma exampleDb_acme_manager:
  "getUserByClerkId (js ''clerk-manager'')
     (exampleDb\<lparr>queries := [OrganizationFindUnique (js ''acme'')]\<rparr>) =
     (Some (exampleUser ''user-2'' ''clerk-manager'' MANAGER),
      exampleDb\<lparr>queries := [OrganizationFindUnique (js ''acme''),
                               UserFindUnique (js ''clerk-manager'')]\<rparr>)"
  by (simp add: getUserByClerkId_def user_findUnique_def db_call_def exampleDb_def exampleUser_def
      js_def)

lemma example_phone_formats:
  "validateAndFormatPhone exampleLib (js ''(201) 555-0123'') (js ''US'') =
     \<lparr>isValid = True, formatted = Some (js ''+12015550123''),
      resultCountry = Some (js ''US''), error = None\<rparr>"
  "validateAndFormatPhone exampleLib (js ''(213) 373-4253'') (js ''US'') =
     \<lparr>isValid = True, formatted = Some (js ''+12133734253''),
      resultCountry = Some (js ''US''), error = None\<rparr>"
  by (simp_all add: validateAndFormatPhone_def exampleLib_def cleanPhone_def isSeparator_def
      isSpace_def usNational_def isDigit_def js_def)

lemma example_e164:
  "isE164Format (js ''+12015550123'')" "isE164Format (js ''+12133734253'')"
  by (simp_all add: isE164Format_eq isCanonicalForm_def js_def isDigit_def isNonZeroDigit_def)

text \<open>
  C3. The claim holds on the public path and fails on the admin path: both handlers run the
  same validator, which always reports a missing consent. The request of a manager to create
  a customer without consent is answered with status 400 and nothing is stored; the same
  request with consent creates the customer; the public registration without consent is
  answered with status 400 as the claim says.
\<close>

theorem adminCreate_without_consent_rejected:
  "adminCreate_POST exampleRuntime exampleLib 1793707200000 1793707200000 id
     (Some (js ''clerk-manager'')) (js ''acme'')
     (exampleBody\<lparr>dataPhone := js ''(201) 555-0123'', dataConsentGiven := False\<rparr>) exampleDb =
     (ApiError 400 (js ''Validation failed'')
        (Some [(js ''consentGiven'', [js ''You must agree to the terms to continue''])]),
      exampleDb\<lparr>queries := [OrganizationFindUnique (js ''acme''),
                               UserFindUnique (js ''clerk-manager'')]\<rparr>)
   \<and> fst (adminCreate_POST exampleRuntime exampleLib 1793707200000 1793707200000 id
          (Some (js ''clerk-manager'')) (js ''acme'')
          (exampleBody\<lparr>dataPhone := js ''(201) 555-0123'', dataConsentGiven := True\<rparr>)
          exampleDb) =
     CustomerCreated (freshId 0) (js ''Customer created successfully'')
   \<and> register_POST exampleRuntime exampleLib 1793707200000 1793707200000 id (js ''acme'')
       (exampleBody\<lparr>dataPhone := js ''(201) 555-0123'', dataConsentGiven := False\<rparr>)
       exampleDb =
     (ApiError 400 (js ''Validation failed'')
        (Some [(js ''consentGiven'', [js ''You must agree to the terms to continue''])]),
      exampleDb)"
proof -
  let ?g = "\<lparr>orgId = js ''org-1'', orgName = js ''Acme'', orgSlug = js ''acme''\<rparr>"
  let ?m = "exampleUser ''user-2'' ''clerk-manager'' MANAGER"
  have t: "truthy (Some (js ''clerk-manager''))" by (simp add: js_def)
  have r: "userOrganizationId ?m = orgId ?g" "role ?m \<noteq> VIEWER" "role ?m = MANAGER"
    by (simp_all add: exampleUser_def)
  have d: "detailsOf [\<lparr>field = js ''consentGiven'',
             errorMessage = js ''You must agree to the terms to continue''\<rparr>] =
      [(js ''consentGiven'', [js ''You must agree to the terms to continue''])]"
    by (simp add: detailsOf_def)
  have a: "adminCreate_POST exampleRuntime exampleLib 1793707200000 1793707200000 id
     (Some (js ''clerk-manager'')) (js ''acme'')
     (exampleBody\<lparr>dataPhone := js ''(201) 555-0123'', dataConsentGiven := False\<rparr>) exampleDb =
     (ApiError 400 (js ''Validation failed'')
        (Some [(js ''consentGiven'', [js ''You must agree to the terms to continue''])]),
      exampleDb\<lparr>queries := [OrganizationFindUnique (js ''acme''),
                               UserFindUnique (js ''clerk-manager'')]\<rparr>)"
    using adminCreate_rejects_without_consent [of
        "exampleBody\<lparr>dataPhone := js ''(201) 555-0123'', dataConsentGiven := False\<rparr>"
        "Some (js ''clerk-manager'')" "js ''acme''" exampleDb ?g None
        "exampleDb\<lparr>queries := [OrganizationFindUnique (js ''acme'')]\<rparr>" ?m
        "exampleDb\<lparr>queries := [OrganizationFindUnique (js ''acme''),
                               UserFindUnique (js ''clerk-manager'')]\<rparr>"
        exampleRuntime exampleLib 1793707200000 1793707200000 id]
      t r exampleDb_acme exampleDb_acme_manager
    by (simp add: example_validation d)
  have c: "adminCountry None
      (exampleBody\<lparr>dataPhone := js ''(201) 555-0123'', dataConsentGiven := True\<rparr>) = js ''US''"
    by (simp add: adminCountry_def exampleBody_def js_def)
  have ph: "dataPhone (exampleBody\<lparr>dataPhone := js ''(201) 555-0123'', dataConsentGiven := True\<rparr>)
      = js ''(201) 555-0123''"
    by simp
  have chk: "validatePhoneAndCheckAvailability exampleLib (js ''(201) 555-0123'') (js ''US'')
      (js ''org-1'') None
      (exampleDb\<lparr>queries := [OrganizationFindUnique (js ''acme''),
                               UserFindUnique (js ''clerk-manager'')]\<rparr>) =
      (Inr \<lparr>isValid = True, formatted = Some (js ''+12015550123''),
            resultCountry = Some (js ''US''), error = None, available = Some True\<rparr>,
       exampleDb\<lparr>queries := [OrganizationFindUnique (js ''acme''),
                               UserFindUnique (js ''clerk-manager''),
                               CustomerFindFirst (js ''org-1'') (js ''+12015550123'') None]\<rparr>)"
    unfolding validatePhoneAndCheckAvailability_def example_phone_formats Let_def
    by (simp add: checkPhoneAvailability_def checkPhoneAvailability_try_def example_e164
        customer_findFirst_def db_call_def withoutAvailability_def)
      (simp add: exampleDb_def exampleCustomer_def customer_where_def withoutAvailability_def
        js_def)
  have ins: "fst (adminCreate_insert exampleRuntime ?g ?m
      (exampleBody\<lparr>dataPhone := js ''(201) 555-0123'', dataConsentGiven := True\<rparr>)
      \<lparr>isValid = True, formatted = Some (js ''+12015550123''),
            resultCountry = Some (js ''US''), error = None, available = Some True\<rparr>
      (exampleDb\<lparr>queries := [OrganizationFindUnique (js ''acme''),
                               UserFindUnique (js ''clerk-manager''),
                               CustomerFindFirst (js ''org-1'') (js ''+12015550123'') None]\<rparr>)) =
      CustomerCreated (freshId 0) (js ''Customer created successfully'')"
    by (simp add: adminCreate_insert_def createCustomerRecord_def customer_create_def db_call_def
        newCustomer_def Let_def exampleDb_def exampleCustomer_def exampleBody_def
        exampleRuntime_def customer_where_def js_def)
  have b: "fst (adminCreate_POST exampleRuntime exampleLib 1793707200000 1793707200000 id
          (Some (js ''clerk-manager'')) (js ''acme'')
          (exampleBody\<lparr>dataPhone := js ''(201) 555-0123'', dataConsentGiven := True\<rparr>)
          exampleDb) =
     CustomerCreated (freshId 0) (js ''Customer created successfully'')"
    unfolding adminCreate_POST_def
    using t r by (simp add: exampleDb_acme exampleDb_acme_manager example_validation c ph chk ins)
  have p: "register_POST exampleRuntime exampleLib 1793707200000 1793707200000 id (js ''acme'')
       (exampleBody\<lparr>dataPhone := js ''(201) 555-0123'', dataConsentGiven := False\<rparr>)
       exampleDb =
     (ApiError 400 (js ''Validation failed'')
        (Some [(js ''consentGiven'', [js ''You must agree to the terms to continue''])]),
      exampleDb)"
    by (simp add: register_rejects_without_consent example_validation d)
  from a b p show ?thesis by simp
qed

theorem adminCreate_without_consent_rejected_witness:
  "fst (adminCreate_POST exampleRuntime exampleLib 1793707200000 1793707200000 id
     (Some (js ''clerk-manager'')) (js ''acme'')
     (exampleBody\<lparr>dataPhone := js ''(201) 555-0123'', dataConsentGiven := False\<rparr>) exampleDb) =
     ApiError 400 (js ''Validation failed'')
        (Some [(js ''consentGiven'', [js ''You must agree to the terms to continue''])])
   \<and> customers (snd (adminCreate_POST exampleRuntime exampleLib 1793707200000 1793707200000 id
     (Some (js ''clerk-manager'')) (js ''acme'')
     (exampleBody\<lparr>dataPhone := js ''(201) 555-0123'', dataConsentGiven := False\<rparr>) exampleDb)) =
     customers exampleDb"
  using adminCreate_without_consent_rejected by simp

section \<open>Registration and phone uniqueness\<close>

lemma push_eq_Nil: "push e errors = [] \<Longrightarrow> e = None \<and> errors = []"
  by (cases e) (simp_all add: push_def)

lemma pushOptional_eq_Nil: "pushOptional v f errors = [] \<Longrightarrow> errors = []"
  by (auto simp add: pushOptional_def dest: push_eq_Nil split: if_splits)

lemma validation_passed_birthDate:
  assumes "validateCustomerRegistration rt today minNow body = []"
  shows "validateBirthDate rt today minNow (DateString (dataBirthDate body)) = None"
proof -
  from assms have "push (validateConsent (dataConsentGiven body))
       (push (validateBirthDate rt today minNow (DateString (dataBirthDate body)))
         (push (validateName (dataLastName body) LastNameField)
           (push (validateName (dataFirstName body) FirstNameField) []))) = []"
    unfolding validateCustomerRegistration_def
    by (blast dest: pushOptional_eq_Nil)
  then show ?thesis by (blast dest: push_eq_Nil)
qed

lemma validateBirthDate_None_parses:
  "validateBirthDate rt today minNow (DateString s) = None \<Longrightarrow> dateParse rt s \<noteq> None"
  by (cases "dateParse rt s")
    (auto simp add: validateBirthDate_def birthDateError_def split: if_splits)

lemma validation_passed_parses:
  "validateCustomerRegistration rt today minNow body = [] \<Longrightarrow>
     dateParse rt (dataBirthDate body) \<noteq> None"
  by (blast dest: validation_passed_birthDate validateBirthDate_None_parses)

lemma validateAndFormatPhone_valid:
  "isValid (validateAndFormatPhone lib inp cc) \<Longrightarrow>
     formatted (validateAndFormatPhone lib inp cc) \<noteq> None"
  by (auto simp add: validateAndFormatPhone_def invalidPhone_def Let_def
      split: if_splits option.splits bool.splits)

lemma checkPhoneAvailability_tables:
  assumes "checkPhoneAvailability ph org ex d = (r, d')"
  shows "customers d' = customers d \<and> organizations d' = organizations d"
proof (cases "isE164Format ph")
  case False
  with assms show ?thesis
    by (simp add: checkPhoneAvailability_def checkPhoneAvailability_try_not_canonical)
next
  case True
  obtain f d1 where c: "db_call (CustomerFindFirst org ph (if truthy ex then ex else None)) d = (f, d1)"
    by (cases "db_call (CustomerFindFirst org ph (if truthy ex then ex else None)) d")
  note t = db_call_tables [OF c]
  from assms True c t show ?thesis
    by (auto simp add: checkPhoneAvailability_def checkPhoneAvailability_try_def
        customer_findFirst_def split: option.splits)
qed

lemma phone_check_result:
  assumes "validatePhoneAndCheckAvailability lib inp cc org ex d = (Inr pv, d')"
  shows "isValid pv = isValid (validateAndFormatPhone lib inp cc)
     \<and> formatted pv = formatted (validateAndFormatPhone lib inp cc)
     \<and> customers d' = customers d \<and> organizations d' = organizations d"
proof (cases "\<not> isValid (validateAndFormatPhone lib inp cc)
               \<or> \<not> truthy (formatted (validateAndFormatPhone lib inp cc))")
  case True
  with assms show ?thesis
    by (auto simp add: validatePhoneAndCheckAvailability_def Let_def withoutAvailability_def)
next
  case False
  obtain r d1 where c: "checkPhoneAvailability (the (formatted (validateAndFormatPhone lib inp cc)))
      org ex d = (r, d1)"
    by (cases "checkPhoneAvailability (the (formatted (validateAndFormatPhone lib inp cc))) org ex d")
  note t = checkPhoneAvailability_tables [OF c]
  from assms False c t show ?thesis
    by (cases r) (auto simp add: validatePhoneAndCheckAvailability_def Let_def
        withoutAvailability_def)
qed

lemma register_check_passed:
  assumes "register_check rt lib today minNow tenantId body e = (Inr (g, isFirst, pv), e3)"
  shows "validateCustomerRegistration rt today minNow body = [] \<and> isValid pv
     \<and> available pv \<noteq> Some False \<and> formatted pv \<noteq> None
     \<and> (\<exists>s e2. register_organization rt tenantId e = ((Some (g, s), isFirst), e2)
            \<and> validatePhoneAndCheckAvailability lib (dataPhone body) (registerCountry s body)
                  (orgId g) None e2 = (Inr pv, e3))"
proof -
  have v: "validateCustomerRegistration rt today minNow body = []"
    using assms by (auto simp add: register_check_def split: if_splits)
  obtain og fl e2 where o: "register_organization rt tenantId e = ((og, fl), e2)"
    by (cases "register_organization rt tenantId e") auto
  from assms v o obtain g0 s0 where og: "og = Some (g0, s0)"
    by (cases og) (auto simp add: register_check_def)
  obtain r e3' where p: "validatePhoneAndCheckAvailability lib (dataPhone body)
                  (registerCountry s0 body) (orgId g0) None e2 = (r, e3')"
    by (cases "validatePhoneAndCheckAvailability lib (dataPhone body)
                  (registerCountry s0 body) (orgId g0) None e2")
  from assms v o og p obtain pv0 where r: "r = Inr pv0"
    by (cases r) (auto simp add: register_check_def)
  from assms v o og p r
  have q: "isValid pv0" "available pv0 \<noteq> Some False" "pv0 = pv" "g0 = g" "fl = isFirst" "e3' = e3"
    by (auto simp add: register_check_def split: if_splits)
  from phone_check_result [OF p [unfolded r]] q
  have "formatted pv \<noteq> None"
    using validateAndFormatPhone_valid [of lib "dataPhone body" "registerCountry s0 body"]
    by simp
  with v q o og p r show ?thesis by auto
qed

lemma customer_create_conflict:
  assumes "list_ex (customer_where (organizationId c) (phone c) None) (customers d)"
    and "faults d = [] \<or> (\<exists>fs. faults d = None # fs)"
  shows "\<exists>d'. customer_create c d = (Inl (ErrorWithCode (js ''P2002'')), d')
           \<and> customers d' = customers d"
  using assms by (auto simp add: customer_create_def db_call_def)

lemma register_conflict:
  assumes chk: "register_check rt lib today minNow tenantId body e = (Inr (g, isFirst, pv), e3)"
    and taken: "list_ex (customer_where (orgId g) (the (formatted pv)) None) (customers (others e3))"
    and up: "faults (others e3) = [] \<or> (\<exists>fs. faults (others e3) = None # fs)"
  shows "available pv \<noteq> Some False
     \<and> (\<exists>e4. register_POST rt lib today minNow others tenantId body e =
                 (ApiError 409 (js ''Phone number already registered'') None, e4)
             \<and> customers e4 = customers (others e3))"
proof -
  note ok = register_check_passed [OF chk]
  from ok obtain p where p: "formatted pv = Some p" by auto
  from ok have "validateCustomerRegistration rt today minNow body = []" by simp
  then have dp: "dateParse rt (dataBirthDate body) \<noteq> None"
    by (rule validation_passed_parses)
  have n: "organizationId (newCustomer rt g body p None) = orgId g"
    "phone (newCustomer rt g body p None) = p"
    by (simp_all add: newCustomer_def)
  from customer_create_conflict [of "newCustomer rt g body p None" "others e3"] taken up p n
  obtain e4 where c: "customer_create (newCustomer rt g body p None) (others e3) =
      (Inl (ErrorWithCode (js ''P2002'')), e4)" "customers e4 = customers (others e3)"
    by auto
  have "register_POST rt lib today minNow others tenantId body e =
      (ApiError 409 (js ''Phone number already registered'') None, e4)"
    using chk p dp c
    by (simp add: register_POST_def register_insert_def createCustomerRecord_def
        createFailure_def)
  with c ok show ?thesis by simp
qed

lemma db_call_ok: "faults d = [] \<Longrightarrow> db_call q d = (None, d\<lparr>queries := queries d @ [q]\<rparr>)"
  by (simp add: db_call_def)

lemma find_None_list_ex: "(find P xs = None) = (\<not> list_ex P xs)"
  by (auto simp add: find_None_iff list_ex_iff)

lemma isE164Format_nonempty: "isE164Format p \<Longrightarrow> p \<noteq> []"
  by (auto simp add: isE164Format_eq isCanonicalForm_def)

lemma register_check_available:
  assumes v: "validateCustomerRegistration rt today minNow body = []"
    and f: "faults d = []"
    and g: "find (\<lambda>x. orgSlug x = tenantId) (organizations d) = Some g"
    and valid: "isValid (validateAndFormatPhone lib (dataPhone body)
                  (registerCountry (settingsOf (orgId g) d) body))"
    and fmt: "formatted (validateAndFormatPhone lib (dataPhone body)
                  (registerCountry (settingsOf (orgId g) d) body)) = Some p"
    and canon: "isE164Format p"
    and free: "\<not> list_ex (customer_where (orgId g) p None) (customers d)"
  shows "register_check rt lib today minNow tenantId body d =
     (Inr (g, False,
           (withoutAvailability (validateAndFormatPhone lib (dataPhone body)
              (registerCountry (settingsOf (orgId g) d) body)))
             \<lparr>error := None, available := Some True\<rparr>),
      d\<lparr>queries := queries d @ [OrganizationFindUnique tenantId,
                                   CustomerFindFirst (orgId g) p None]\<rparr>)"
proof -
  define s where "s = settingsOf (orgId g) d"
  define vr where "vr = validateAndFormatPhone lib (dataPhone body) (registerCountry s body)"
  define d1 where "d1 = d\<lparr>queries := queries d @ [OrganizationFindUnique tenantId]\<rparr>"
  define d2 where "d2 = d1\<lparr>queries := queries d1 @ [CustomerFindFirst (orgId g) p None]\<rparr>"
  define pv where "pv = (withoutAvailability vr)\<lparr>error := None, available := Some True\<rparr>"
  have f1: "faults d1 = []" and c1: "customers d1 = customers d"
    using f by (simp_all add: d1_def)
  have org: "register_organization rt tenantId d = ((Some (g, s), False), d1)"
    using g f
    by (simp add: register_organization_def getOrganizationBySlug_def
        organization_findUnique_def db_call_ok d1_def s_def settingsOf_def)
  have pne: "p \<noteq> []" using canon by (rule isE164Format_nonempty)
  have nf: "find (customer_where (orgId g) p None) (customers d1) = None"
    using free by (simp add: find_None_list_ex c1)
  have chk: "checkPhoneAvailability p (orgId g) None d1 =
      (Inr \<lparr>isAvailable = True, message = Some (js ''Phone number is available'')\<rparr>, d2)"
    using canon nf f1
    by (simp add: checkPhoneAvailability_def checkPhoneAvailability_try_def
        customer_findFirst_def db_call_ok d2_def)
  have vv: "isValid vr" "formatted vr = Some p"
    using valid fmt by (simp_all add: vr_def s_def)
  have pc: "validatePhoneAndCheckAvailability lib (dataPhone body) (registerCountry s body)
      (orgId g) None d1 = (Inr pv, d2)"
    using vv pne chk
    by (simp add: validatePhoneAndCheckAvailability_def Let_def vr_def [symmetric] pv_def)
  have pvf: "isValid pv" "available pv = Some True"
    using vv by (simp_all add: pv_def withoutAvailability_def)
  have rc: "register_check rt lib today minNow tenantId body d = (Inr (g, False, pv), d2)"
    using v org pc pvf by (simp add: register_check_def)
  then show ?thesis
    by (simp add: pv_def vr_def s_def d2_def d1_def)
qed

lemma register_success:
  assumes v: "validateCustomerRegistration rt today minNow body = []"
    and f: "faults d = []"
    and g: "find (\<lambda>x. orgSlug x = tenantId) (organizations d) = Some g"
    and valid: "isValid (validateAndFormatPhone lib (dataPhone body)
                  (registerCountry (settingsOf (orgId g) d) body))"
    and fmt: "formatted (validateAndFormatPhone lib (dataPhone body)
                  (registerCountry (settingsOf (orgId g) d) body)) = Some p"
    and canon: "isE164Format p"
    and free: "\<not> list_ex (customer_where (orgId g) p None) (customers d)"
  shows "\<exists>row d'. register_POST rt lib today minNow id tenantId body d =
            (Registered (customerId row) False (js ''Registration successful!''), d')
         \<and> customers d' = customers d @ [row] \<and> organizationId row = orgId g \<and> phone row = p"
proof -
  define pv where "pv = (withoutAvailability (validateAndFormatPhone lib (dataPhone body)
              (registerCountry (settingsOf (orgId g) d) body)))
             \<lparr>error := None, available := Some True\<rparr>"
  define d2 where "d2 = d\<lparr>queries := queries d @ [OrganizationFindUnique tenantId,
                                   CustomerFindFirst (orgId g) p None]\<rparr>"
  have rc: "register_check rt lib today minNow tenantId body d = (Inr (g, False, pv), d2)"
    using register_check_available [OF v f g valid fmt canon free]
    by (simp add: pv_def d2_def)
  have pvf: "formatted pv = Some p"
    using fmt by (simp add: pv_def withoutAvailability_def)
  have f2: "faults d2 = []" and c2: "customers d2 = customers d"
    and o2: "organizations d2 = organizations d"
    using f by (simp_all add: d2_def)
  from validation_passed_parses [OF v]
  obtain bd where bd: "dateParse rt (dataBirthDate body) = Some bd" by auto
  have gin: "list_ex (\<lambda>x. orgId x = orgId g) (organizations d2)"
    using g by (auto simp add: o2 list_ex_iff find_Some_iff)
  define row where "row = (newCustomer rt g body p None)\<lparr>customerId := freshId (nextId d2)\<rparr>"
  have n: "organizationId (newCustomer rt g body p None) = orgId g"
    "phone (newCustomer rt g body p None) = p"
    by (simp_all add: newCustomer_def)
  define d3 where "d3 = d2\<lparr>queries := queries d2 @ [CustomerCreate (orgId g) p],
      customers := customers d2 @ [row], nextId := Suc (nextId d2)\<rparr>"
  have cc: "customer_create (newCustomer rt g body p None) d2 = (Inr row, d3)"
    using free gin f2
    by (simp add: customer_create_def db_call_ok n c2 Let_def row_def d3_def)
  have "register_POST rt lib today minNow id tenantId body d =
      (Registered (customerId row) False (js ''Registration successful!''), d3)"
    using rc pvf bd cc
    by (simp add: register_POST_def register_insert_def createCustomerRecord_def)
  moreover have "organizationId row = orgId g" "phone row = p"
    by (simp_all add: row_def n)
  moreover have "customers d3 = customers d @ [row]"
    by (simp add: d3_def c2)
  ultimately show ?thesis by blast
qed

lemma register_failure_not_conflict:
  assumes chk: "register_check rt lib today minNow tenantId body e = (Inr (g, isFirst, pv), e3)"
    and fail: "createCustomerRecord rt g body (formatted pv) None (others e3) = (Inl x, e4)"
    and other: "x \<noteq> ErrorWithCode (js ''P2002'')"
  shows "register_POST rt lib today minNow others tenantId body e =
     (ApiError 500 (js ''Failed to create customer record'') None, e4)"
  using assms
  by (cases x) (simp_all add: register_POST_def register_insert_def createFailure_def)

lemma invalid_country_rejected:
  assumes "cleanPhone inp \<noteq> []" and "cc \<notin> set (getCountries lib)"
  shows "validatePhoneAndCheckAvailability lib inp cc org ex d =
     (Inr (withoutAvailability (invalidPhone ''Invalid country code'')), d)"
  using assms
  by (simp add: validatePhoneAndCheckAvailability_def validateAndFormatPhone_def Let_def
      invalidPhone_def)

lemma register_organization_found:
  assumes "faults d = []"
    and "find (\<lambda>x. orgSlug x = tenantId) (organizations d) = Some g"
  shows "register_organization rt tenantId d =
     ((Some (g, settingsOf (orgId g) d), False),
      d\<lparr>queries := queries d @ [OrganizationFindUnique tenantId]\<rparr>)"
  using assms
  by (simp add: register_organization_def getOrganizationBySlug_def organization_findUnique_def
      db_call_ok settingsOf_def)

lemma register_organization_new:
  assumes f: "faults d = []"
    and n: "find (\<lambda>x. orgSlug x = tenantId) (organizations d) = None"
  shows "\<exists>g d2. register_organization rt tenantId d =
        ((Some (g, Some \<lparr>settingsOrganizationId = orgId g,
                          settingsCountry = js ''United States''\<rparr>), True), d2)
      \<and> customers d2 = customers d \<and> orgId g = freshId (nextId d)
      \<and> settings d2 = settings d @ [\<lparr>settingsOrganizationId = orgId g,
                                         settingsCountry = js ''United States''\<rparr>]"
proof -
  define d1 where "d1 = d\<lparr>queries := queries d @ [OrganizationFindUnique tenantId]\<rparr>"
  have f1: "faults d1 = []" and o1: "organizations d1 = organizations d"
    using f by (simp_all add: d1_def)
  have look: "getOrganizationBySlug tenantId d = (None, d1)"
    using f n
    by (simp add: getOrganizationBySlug_def organization_findUnique_def db_call_ok d1_def)
  have fresh: "\<not> list_ex (\<lambda>x. orgSlug x = tenantId) (organizations d1)"
    using n by (simp add: find_None_list_ex o1)
  show ?thesis
    using look fresh f1
    by (simp add: register_organization_def createOrganization_def organization_create_def
        db_call_ok Let_def d1_def)
qed

lemma register_check_country:
  assumes v: "validateCustomerRegistration rt today minNow body = []"
    and ph: "cleanPhone (dataPhone body) \<noteq> []"
    and org: "register_organization rt tenantId d = ((Some (g, Some s), fl), d2)"
    and name: "settingsCountry s \<noteq> []" "settingsCountry s \<notin> set (getCountries lib)"
  shows "register_check rt lib today minNow tenantId body d =
     (Inl (ApiError 400 (js ''Invalid country code'') None), d2)"
proof -
  have c: "registerCountry (Some s) body = settingsCountry s"
    using name by (simp add: registerCountry_def)
  have "validatePhoneAndCheckAvailability lib (dataPhone body) (registerCountry (Some s) body)
      (orgId g) None d2 = (Inr (withoutAvailability (invalidPhone ''Invalid country code'')), d2)"
    unfolding c using ph name(2) by (rule invalid_country_rejected)
  moreover have "phoneFailure (withoutAvailability (invalidPhone ''Invalid country code'')) =
      ApiError 400 (js ''Invalid country code'') None"
    by (simp add: phoneFailure_def withoutAvailability_def invalidPhone_def js_def)
  moreover have "\<not> isValid (withoutAvailability (invalidPhone ''Invalid country code''))"
    by (simp add: withoutAvailability_def invalidPhone_def)
  ultimately show ?thesis
    using v org by (simp add: register_check_def)
qed

text \<open>
  C1. The claim fails on the code where it says that a registration succeeds. The handler
  passes the country of the tenant's settings to the phone formatter as the country code.
  That setting is a country name: every tenant made by \<open>createOrganization\<close> gets
  \<open>United States\<close>, and the phone library lists two-letter codes. So for a library that
  does not list \<open>United States\<close>, a request that passes validation and carries a phone
  number, with storage answering every call, is answered with status 400 and
  \<open>Invalid country code\<close>, and no customer is stored, when the tenant is new, and when the
  tenant exists and its settings hold a country that the library does not list.
\<close>

theorem register_rejects_country_name:
  assumes lib: "js ''United States'' \<notin> set (getCountries lib)"
    and valid: "validateCustomerRegistration rt today minNow body = []"
    and ph: "cleanPhone (dataPhone body) \<noteq> []"
    and up: "faults d = []"
    and tenant: "find (\<lambda>x. orgSlug x = tenantId) (organizations d) = None
       \<or> (\<exists>g s. find (\<lambda>x. orgSlug x = tenantId) (organizations d) = Some g
             \<and> settingsOf (orgId g) d = Some s \<and> settingsCountry s \<noteq> []
             \<and> settingsCountry s \<notin> set (getCountries lib))"
  shows "fst (register_POST rt lib today minNow others tenantId body d) =
       ApiError 400 (js ''Invalid country code'') None
     \<and> customers (snd (register_POST rt lib today minNow others tenantId body d)) = customers d"
  using tenant
proof
  assume "find (\<lambda>x. orgSlug x = tenantId) (organizations d) = None"
  from register_organization_new [OF up this, of rt]
  obtain g d2 where org: "register_organization rt tenantId d =
        ((Some (g, Some \<lparr>settingsOrganizationId = orgId g,
                          settingsCountry = js ''United States''\<rparr>), True), d2)"
    and c: "customers d2 = customers d"
    by blast
  have "register_check rt lib today minNow tenantId body d =
     (Inl (ApiError 400 (js ''Invalid country code'') None), d2)"
    using valid ph org
  proof (rule register_check_country)
    show "settingsCountry \<lparr>settingsOrganizationId = orgId g,
        settingsCountry = js ''United States''\<rparr> \<noteq> []"
      by (simp add: js_def)
    show "settingsCountry \<lparr>settingsOrganizationId = orgId g,
        settingsCountry = js ''United States''\<rparr> \<notin> set (getCountries lib)"
      using lib by simp
  qed
  with c show ?thesis by (simp add: register_POST_def)
next
  assume "\<exists>g s. find (\<lambda>x. orgSlug x = tenantId) (organizations d) = Some g
             \<and> settingsOf (orgId g) d = Some s \<and> settingsCountry s \<noteq> []
             \<and> settingsCountry s \<notin> set (getCountries lib)"
  then obtain g s where g: "find (\<lambda>x. orgSlug x = tenantId) (organizations d) = Some g"
    and s: "settingsOf (orgId g) d = Some s"
    and name: "settingsCountry s \<noteq> []" "settingsCountry s \<notin> set (getCountries lib)"
    by blast
  define d1 where "d1 = d\<lparr>queries := queries d @ [OrganizationFindUnique tenantId]\<rparr>"
  have org: "register_organization rt tenantId d = ((Some (g, Some s), False), d1)"
    using register_organization_found [OF up g, of rt] s by (simp add: d1_def)
  have "register_check rt lib today minNow tenantId body d =
     (Inl (ApiError 400 (js ''Invalid country code'') None), d1)"
    using valid ph org name by (rule register_check_country)
  then show ?thesis by (simp add: register_POST_def d1_def)
qed

theorem register_rejects_country_name_witness:
  "fst (register_POST exampleRuntime exampleLib 1793707200000 1793707200000 id (js ''beta'')
          exampleBody exampleDb) =
     ApiError 400 (js ''Invalid country code'') None
   \<and> customers (snd (register_POST exampleRuntime exampleLib 1793707200000 1793707200000 id
          (js ''beta'') exampleBody exampleDb)) = customers exampleDb
   \<and> fst (register_POST exampleRuntime exampleLib 1793707200000 1793707200000 id (js ''globex'')
          exampleBody
          (exampleDb\<lparr>settings := [\<lparr>settingsOrganizationId = js ''org-2'',
                                     settingsCountry = js ''United States''\<rparr>]\<rparr>)) =
     ApiError 400 (js ''Invalid country code'') None
   \<and> customers (snd (register_POST exampleRuntime exampleLib 1793707200000 1793707200000 id
          (js ''globex'') exampleBody
          (exampleDb\<lparr>settings := [\<lparr>settingsOrganizationId = js ''org-2'',
                                     settingsCountry = js ''United States''\<rparr>]\<rparr>))) =
     customers exampleDb
   \<and> settings (snd (register_POST exampleRuntime exampleLib 1793707200000 1793707200000 id
          (js ''beta'') exampleBody exampleDb)) =
     [\<lparr>settingsOrganizationId = freshId 0, settingsCountry = js ''United States''\<rparr>]
   \<and> validateAndFormatPhone exampleLib (dataPhone exampleBody) (js ''US'') =
     \<lparr>isValid = True, formatted = Some (js ''+12133734253''),
      resultCountry = Some (js ''US''), error = None\<rparr>"
proof -
  let ?d = "exampleDb\<lparr>settings := [\<lparr>settingsOrganizationId = js ''org-2'',
                                     settingsCountry = js ''United States''\<rparr>]\<rparr>"
  let ?g = "\<lparr>orgId = js ''org-2'', orgName = js ''Globex'', orgSlug = js ''globex''\<rparr>"
  let ?s = "\<lparr>settingsOrganizationId = js ''org-2'', settingsCountry = js ''United States''\<rparr>"
  have b: "exampleBody\<lparr>dataPhone := js ''(213) 373-4253'', dataConsentGiven := True\<rparr> = exampleBody"
    by (simp add: exampleBody_def)
  have v: "validateCustomerRegistration exampleRuntime 1793707200000 1793707200000 exampleBody = []"
    using example_validation [where p = "js ''(213) 373-4253''" and c = True] by (simp add: b)
  have lib: "js ''United States'' \<notin> set (getCountries exampleLib)"
    by (simp add: exampleLib_def js_def)
  have ph: "cleanPhone (dataPhone exampleBody) \<noteq> []"
    by (simp add: cleanPhone_def exampleBody_def isSeparator_def isSpace_def js_def)
  have f: "faults exampleDb = []" "faults ?d = []" by (simp_all add: exampleDb_def)
  have new: "find (\<lambda>x. orgSlug x = js ''beta'') (organizations exampleDb) = None"
    by (simp add: exampleDb_def js_def)
  have old: "find (\<lambda>x. orgSlug x = js ''globex'') (organizations ?d) = Some ?g"
    by (simp add: exampleDb_def js_def)
  have st: "settingsOf (orgId ?g) ?d = Some ?s"
    by (simp add: settingsOf_def)
  have ne: "js ''United States'' \<noteq> []" by (simp add: js_def)
  have c: "customers ?d = customers exampleDb" by simp
  note beta = register_rejects_country_name [of exampleLib exampleRuntime 1793707200000
      1793707200000 exampleBody exampleDb "js ''beta''" id, OF lib v ph f(1)]
  note globex = register_rejects_country_name [of exampleLib exampleRuntime 1793707200000
      1793707200000 exampleBody ?d "js ''globex''" id, OF lib v ph f(2)]
  have r1: "fst (register_POST exampleRuntime exampleLib 1793707200000 1793707200000 id (js ''beta'')
          exampleBody exampleDb) = ApiError 400 (js ''Invalid country code'') None
     \<and> customers (snd (register_POST exampleRuntime exampleLib 1793707200000 1793707200000 id
          (js ''beta'') exampleBody exampleDb)) = customers exampleDb"
    using beta new by blast
  have r2: "fst (register_POST exampleRuntime exampleLib 1793707200000 1793707200000 id
          (js ''globex'') exampleBody ?d) = ApiError 400 (js ''Invalid country code'') None
     \<and> customers (snd (register_POST exampleRuntime exampleLib 1793707200000 1793707200000 id
          (js ''globex'') exampleBody ?d)) = customers ?d"
  proof (rule globex, intro disjI2 exI conjI)
    show "find (\<lambda>x. orgSlug x = js ''globex'') (organizations ?d) = Some ?g" by (rule old)
    show "settingsOf (orgId ?g) ?d = Some ?s" by (rule st)
    show "settingsCountry ?s \<noteq> []" using ne by simp
    show "settingsCountry ?s \<notin> set (getCountries exampleLib)" using lib by simp
  qed
  have r3: "settings (snd (register_POST exampleRuntime exampleLib 1793707200000 1793707200000 id
          (js ''beta'') exampleBody exampleDb)) =
     [\<lparr>settingsOrganizationId = freshId 0, settingsCountry = js ''United States''\<rparr>]"
  proof -
    from register_organization_new [OF f(1) new, of exampleRuntime]
    obtain g d2 where org: "register_organization exampleRuntime (js ''beta'') exampleDb =
        ((Some (g, Some \<lparr>settingsOrganizationId = orgId g,
                          settingsCountry = js ''United States''\<rparr>), True), d2)"
      and g: "orgId g = freshId (nextId exampleDb)"
      and st2: "settings d2 = settings exampleDb @ [\<lparr>settingsOrganizationId = orgId g,
                                         settingsCountry = js ''United States''\<rparr>]"
      by blast
    have "register_check exampleRuntime exampleLib 1793707200000 1793707200000 (js ''beta'')
        exampleBody exampleDb = (Inl (ApiError 400 (js ''Invalid country code'') None), d2)"
      using v ph org
    proof (rule register_check_country)
      show "settingsCountry \<lparr>settingsOrganizationId = orgId g,
          settingsCountry = js ''United States''\<rparr> \<noteq> []"
        using ne by simp
      show "settingsCountry \<lparr>settingsOrganizationId = orgId g,
          settingsCountry = js ''United States''\<rparr> \<notin> set (getCountries exampleLib)"
        using lib by simp
    qed
    then have "snd (register_POST exampleRuntime exampleLib 1793707200000 1793707200000 id
          (js ''beta'') exampleBody exampleDb) = d2"
      by (simp add: register_POST_def)
    with st2 g show ?thesis by (simp add: exampleDb_def)
  qed
  have r4: "validateAndFormatPhone exampleLib (dataPhone exampleBody) (js ''US'') =
     \<lparr>isValid = True, formatted = Some (js ''+12133734253''),
      resultCountry = Some (js ''US''), error = None\<rparr>"
    by (simp add: exampleBody_def example_phone_formats)
  from r1 r2 r3 r4 c show ?thesis by simp
qed

text \<open>
  Where the insert is reached, uniqueness is per tenant and the handler tells a conflict
  from other failures. With a tenant that has no settings row and a country code in the
  request, the example registration succeeds under the second tenant
  although the first holds the same phone; a customer stored with that phone by another
  request after the availability check makes the insert fail on the unique constraint,
  which is answered with status 409; an insert that fails for another reason is answered
  with status 500.
\<close>

lemma example_registration_outcomes:
  "list_ex (customer_where (js ''org-1'') (js ''+12133734253'') None) (customers exampleDb)
   \<and> (\<exists>row d'. register_POST exampleRuntime exampleLib 1793707200000 1793707200000 id
          (js ''globex'') exampleBody exampleDb =
            (Registered (customerId row) False (js ''Registration successful!''), d')
         \<and> customers d' = customers exampleDb @ [row] \<and> organizationId row = js ''org-2''
         \<and> phone row = js ''+12133734253'')
   \<and> fst (register_POST exampleRuntime exampleLib 1793707200000 1793707200000
          (\<lambda>x. x\<lparr>customers := customers x
                      @ [exampleCustomer\<lparr>customerId := js ''cust-2'',
                                          organizationId := js ''org-2''\<rparr>]\<rparr>)
          (js ''globex'') exampleBody exampleDb) =
       ApiError 409 (js ''Phone number already registered'') None
   \<and> fst (register_POST exampleRuntime exampleLib 1793707200000 1793707200000
          (\<lambda>x. x\<lparr>faults := [Some (ErrorWithCode (js ''P1001''))]\<rparr>)
          (js ''globex'') exampleBody exampleDb) =
       ApiError 500 (js ''Failed to create customer record'') None"
proof -
  let ?g = "\<lparr>orgId = js ''org-2'', orgName = js ''Globex'', orgSlug = js ''globex''\<rparr>"
  let ?p = "js ''+12133734253''"
  let ?others = "\<lambda>x. x\<lparr>customers := customers x
                      @ [exampleCustomer\<lparr>customerId := js ''cust-2'',
                                          organizationId := js ''org-2''\<rparr>]\<rparr>"
  let ?down = "\<lambda>x. x\<lparr>faults := [Some (ErrorWithCode (js ''P1001''))]\<rparr>"
  let ?vr = "validateAndFormatPhone exampleLib (dataPhone exampleBody)
      (registerCountry (settingsOf (orgId ?g) exampleDb) exampleBody)"
  let ?pv = "(withoutAvailability ?vr)\<lparr>error := None, available := Some True\<rparr>"
  let ?e3 = "exampleDb\<lparr>queries := queries exampleDb
      @ [OrganizationFindUnique (js ''globex''), CustomerFindFirst (orgId ?g) ?p None]\<rparr>"
  have b: "exampleBody\<lparr>dataPhone := js ''(213) 373-4253'', dataConsentGiven := True\<rparr> = exampleBody"
    by (simp add: exampleBody_def)
  have v: "validateCustomerRegistration exampleRuntime 1793707200000 1793707200000 exampleBody = []"
    using example_validation [where p = "js ''(213) 373-4253''" and c = True] by (simp add: b)
  have f: "faults exampleDb = []" by (simp add: exampleDb_def)
  have g: "find (\<lambda>x. orgSlug x = js ''globex'') (organizations exampleDb) = Some ?g"
    by (simp add: exampleDb_def js_def)
  have c: "registerCountry (settingsOf (orgId ?g) exampleDb) exampleBody = js ''US''"
    by (simp add: registerCountry_def settingsOf_def exampleDb_def exampleBody_def js_def)
  have ph: "dataPhone exampleBody = js ''(213) 373-4253''"
    by (simp add: exampleBody_def)
  have vr: "?vr = \<lparr>isValid = True, formatted = Some ?p, resultCountry = Some (js ''US''),
                  error = None\<rparr>"
    by (simp only: c ph example_phone_formats)
  have valid: "isValid ?vr" and fmt: "formatted ?vr = Some ?p"
    by (simp_all only: vr) simp_all
  have canon: "isE164Format ?p" by (rule example_e164)
  have free: "\<not> list_ex (customer_where (orgId ?g) ?p None) (customers exampleDb)"
    by (simp add: exampleDb_def exampleCustomer_def customer_where_def js_def)
  have held: "list_ex (customer_where (js ''org-1'') ?p None) (customers exampleDb)"
    by (simp add: exampleDb_def exampleCustomer_def customer_where_def)
  have oid: "orgId ?g = js ''org-2''" by simp
  have chk: "register_check exampleRuntime exampleLib 1793707200000 1793707200000 (js ''globex'')
      exampleBody exampleDb = (Inr (?g, False, ?pv), ?e3)"
    by (rule register_check_available [OF v f g valid fmt canon free])
  have fpv: "formatted ?pv = Some ?p"
    using fmt by (simp add: withoutAvailability_def)
  have taken: "list_ex (customer_where (orgId ?g) (the (formatted ?pv)) None)
      (customers (?others ?e3))"
    unfolding fpv
    by (simp add: exampleDb_def exampleCustomer_def customer_where_def)
  have up: "faults (?others ?e3) = [] \<or> (\<exists>fs. faults (?others ?e3) = None # fs)"
    by (simp add: exampleDb_def)
  from register_success [OF v f g valid fmt canon free]
  have a: "\<exists>row d'. register_POST exampleRuntime exampleLib 1793707200000 1793707200000 id
          (js ''globex'') exampleBody exampleDb =
            (Registered (customerId row) False (js ''Registration successful!''), d')
         \<and> customers d' = customers exampleDb @ [row] \<and> organizationId row = orgId ?g
         \<and> phone row = ?p"
    by blast
  from register_conflict [where others = ?others, OF chk taken up]
  have "\<exists>e4. register_POST exampleRuntime exampleLib 1793707200000 1793707200000 ?others
          (js ''globex'') exampleBody exampleDb =
       (ApiError 409 (js ''Phone number already registered'') None, e4)"
    by blast
  then have c409: "fst (register_POST exampleRuntime exampleLib 1793707200000 1793707200000 ?others
          (js ''globex'') exampleBody exampleDb) =
       ApiError 409 (js ''Phone number already registered'') None"
    by auto
  have dp: "dateParse exampleRuntime (dataBirthDate exampleBody) \<noteq> None"
    using v by (rule validation_passed_parses)
  have fail: "createCustomerRecord exampleRuntime ?g exampleBody (formatted ?pv) None (?down ?e3) =
      (Inl (ErrorWithCode (js ''P1001'')),
       snd (createCustomerRecord exampleRuntime ?g exampleBody (formatted ?pv) None (?down ?e3)))"
    unfolding fpv using dp by (simp add: createCustomerRecord_def customer_create_def db_call_def)
  have code: "ErrorWithCode (js ''P1001'') \<noteq> ErrorWithCode (js ''P2002'')"
    by (simp add: js_def)
  from register_failure_not_conflict [where others = ?down, OF chk fail code]
  have c500: "fst (register_POST exampleRuntime exampleLib 1793707200000 1793707200000 ?down
          (js ''globex'') exampleBody exampleDb) =
       ApiError 500 (js ''Failed to create customer record'') None"
    by simp
  from held a c409 c500 show ?thesis by (simp only: oid) 
qed
section \<open>The formatter on canonical input\<close>

text \<open>
  Cleaning leaves a canonical string as it is, so on canonical input the formatter hands
  the string to the phone library unchanged and returns what the library makes of it.
\<close>

lemma digit_not_separator: "isDigit c \<Longrightarrow> \<not> isSeparator c"
  unfolding isDigit_def isSeparator_def isSpace_def
  by (auto simp add: word_le_nat_alt word_less_nat_alt dest!: arg_cong [where f = unat])

lemma nonzero_digit_is_digit: "isNonZeroDigit c \<Longrightarrow> isDigit c"
  unfolding isDigit_def isNonZeroDigit_def
  by (auto simp add: word_le_nat_alt)

lemma cleanPhone_canonical: "isE164Format e \<Longrightarrow> cleanPhone e = e"
proof -
  assume "isE164Format e"
  then have c: "isCanonicalForm e" by (simp add: isE164Format_eq)
  then obtain p d ds where e: "e = p # d # ds" "p = 0x2B" "isNonZeroDigit d" "list_all isDigit ds"
    by (auto simp add: isCanonicalForm_def split: list.splits)
  have "\<not> isSeparator p" using e(2) by (simp add: isSeparator_def isSpace_def)
  moreover have "\<not> isSeparator d"
    using e(3) by (simp add: digit_not_separator nonzero_digit_is_digit)
  moreover have "filter (\<lambda>c. \<not> isSeparator c) ds = ds"
    using e(4) by (auto simp add: list_all_iff digit_not_separator)
  ultimately show ?thesis by (simp add: cleanPhone_def e(1))
qed

lemma validateAndFormatPhone_canonical_input:
  assumes "isE164Format e" and "cc \<in> set (getCountries lib)"
    and "isValidPhoneNumber lib e cc = Some True"
    and "parsePhoneNumber lib e cc = Some (e', c)"
  shows "isValid (validateAndFormatPhone lib e cc)
     \<and> formatted (validateAndFormatPhone lib e cc) = Some e'"
  using assms isE164Format_nonempty [of e]
  by (simp add: validateAndFormatPhone_def cleanPhone_canonical Let_def)

end
